theory Spec2Isabelle
  imports Main
begin

section \<open>JavaScript strings\<close>

text \<open>
  A JavaScript string is a sequence of UTF-16 code units. It is modelled as a list of
  natural numbers, one per code unit, so that \<open>length\<close> is the \<open>.length\<close> of the
  source and every code unit (also those beyond Latin-1, such as the em dash 8212) has a
  value. \<open>str\<close> turns an ASCII literal into such a list.
\<close>

type_synonym jsstring = "nat list"

definition str :: "string \<Rightarrow> jsstring" where
  "str s = map of_char s"

definition cu :: "char \<Rightarrow> nat" where
  "cu c = of_char c"

text \<open>
  White space as \<open>String.prototype.trim\<close> and the regular expression class \<open>\s\<close>
  see it: the WhiteSpace and LineTerminator code points of ECMAScript.
\<close>

definition is_ws :: "nat \<Rightarrow> bool" where
  "is_ws c \<longleftrightarrow> c \<in> {9, 10, 11, 12, 13, 32, 160, 5760, 8232, 8233, 8239, 8287, 12288, 65279}
     \<or> (8192 \<le> c \<and> c \<le> 8202)"

definition is_lower :: "nat \<Rightarrow> bool" where
  "is_lower c \<longleftrightarrow> 97 \<le> c \<and> c \<le> 122"

definition is_upper :: "nat \<Rightarrow> bool" where
  "is_upper c \<longleftrightarrow> 65 \<le> c \<and> c \<le> 90"

definition is_digit :: "nat \<Rightarrow> bool" where
  "is_digit c \<longleftrightarrow> 48 \<le> c \<and> c \<le> 57"

text \<open>The class \<open>\w\<close> of a regular expression without the unicode flag.\<close>

definition is_word :: "nat \<Rightarrow> bool" where
  "is_word c \<longleftrightarrow> is_lower c \<or> is_upper c \<or> is_digit c \<or> c = 95"

definition trimStart :: "jsstring \<Rightarrow> jsstring" where
  "trimStart s = dropWhile is_ws s"

definition trimEnd :: "jsstring \<Rightarrow> jsstring" where
  "trimEnd s = rev (dropWhile is_ws (rev s))"

definition trim :: "jsstring \<Rightarrow> jsstring" where
  "trim s = trimEnd (trimStart s)"

text \<open>
  \<open>s.slice(a, b)\<close> for non-negative integers: both bounds are clamped to the length and
  an empty string results when \<open>b \<le> a\<close>.
\<close>

definition slice :: "jsstring \<Rightarrow> nat \<Rightarrow> nat \<Rightarrow> jsstring" where
  "slice s a b = take (b - a) (drop a s)"

text \<open>\<open>s.slice(a)\<close>, up to the end.\<close>

definition sliceFrom :: "jsstring \<Rightarrow> nat \<Rightarrow> jsstring" where
  "sliceFrom s a = drop a s"

definition startsWith :: "jsstring \<Rightarrow> jsstring \<Rightarrow> bool" where
  "startsWith s p \<longleftrightarrow> take (length p) s = p"

text \<open>
  \<open>s.split(c)\<close> for a separator of one code unit: the pieces between the separators, a
  non-empty list always (\<open>"".split(c)\<close> is \<open>[""]\<close>).
\<close>

fun splitOn :: "(nat \<Rightarrow> bool) \<Rightarrow> jsstring \<Rightarrow> jsstring list" where
  "splitOn sep [] = [[]]"
| "splitOn sep (c # cs) =
     (if sep c then [] # splitOn sep cs
      else (case splitOn sep cs of
              [] \<Rightarrow> [[c]]
            | p # ps \<Rightarrow> (c # p) # ps))"

text \<open>\<open>xs.join(sep)\<close>.\<close>

fun join :: "jsstring \<Rightarrow> jsstring list \<Rightarrow> jsstring" where
  "join sep [] = []"
| "join sep [x] = x"
| "join sep (x # y # ys) = x @ sep @ join sep (y # ys)"

text \<open>A non-negative integer in a template literal: its decimal digits.\<close>

fun showNat :: "nat \<Rightarrow> jsstring" where
  "showNat n = (if n < 10 then [48 + n] else showNat (n div 10) @ [48 + n mod 10])"

text \<open>A string in a condition: \<open>undefined\<close> and the empty string are falsy.\<close>

fun truthy :: "jsstring option \<Rightarrow> bool" where
  "truthy None = False"
| "truthy (Some s) = (s \<noteq> [])"

text \<open>\<open>[...new Set(xs)]\<close>: the distinct elements in the order of their first occurrence.\<close>

fun dedupe :: "'a list \<Rightarrow> 'a list" where
  "dedupe [] = []"
| "dedupe (x # xs) = x # dedupe (filter (\<lambda>y. y \<noteq> x) xs)"

section \<open>The structural model (prose-types)\<close>

datatype FileNodeKind =
  KFunction | KClass | KVariable | KImport | KExport | KControl | KType

record Param =
  pname :: jsstring
  ptype :: "jsstring option"

record ChildSummary =
  callCount :: nat
  conditionCount :: nat
  loopCount :: nat
  returnCount :: nat
  calledFunctions :: "jsstring list"

text \<open>
  \<open>FileNode\<close> is recursive through \<open>children\<close>, so it is a datatype with the fields of the
  interface as selectors (\<open>from\<close> and \<open>to\<close> are \<open>fromOff\<close> and \<open>toOff\<close>).
\<close>

datatype FileNode = FileNode
  (kind: FileNodeKind)
  (name: jsstring)
  (params: "Param list")
  (returnType: "jsstring option")
  (isAsync: bool)
  (isExported: bool)
  (keyword: jsstring)
  (fromOff: nat)
  (toOff: nat)
  (children: "FileNode list")
  (childSummary: ChildSummary)

record FileStructure =
  fsImports :: "FileNode list"
  fsExports :: "FileNode list"
  declarations :: "FileNode list"
  language :: jsstring

definition emptySummary :: ChildSummary where
  "emptySummary = \<lparr>callCount = 0, conditionCount = 0, loopCount = 0, returnCount = 0,
     calledFunctions = []\<rparr>"

text \<open>The string a kind is in the source (\<open>FileNodeKind\<close> is a union of string literals).\<close>

fun kindStr :: "FileNodeKind \<Rightarrow> jsstring" where
  "kindStr KFunction = str ''function''"
| "kindStr KClass = str ''class''"
| "kindStr KVariable = str ''variable''"
| "kindStr KImport = str ''import''"
| "kindStr KExport = str ''export''"
| "kindStr KControl = str ''control''"
| "kindStr KType = str ''type''"

section \<open>Template prose (prose-provider)\<close>

text \<open>
  \<open>name.replace(/([a-z])([A-Z])/g, "$1 $2")\<close>: the scan goes left to right; a lower-case
  letter followed by an upper-case one is a match of two code units, replaced by the two
  with a space between, and the scan goes on after the match.
\<close>

fun splitCamel :: "jsstring \<Rightarrow> jsstring" where
  "splitCamel (a # b # rest) =
     (if is_lower a \<and> is_upper b then a # 32 # b # splitCamel rest
      else a # splitCamel (b # rest))"
| "splitCamel s = s"

text \<open>\<open>s.replace(/c/g, " ")\<close> for one code unit \<open>c\<close>.\<close>

definition replaceAllBySpace :: "nat \<Rightarrow> jsstring \<Rightarrow> jsstring" where
  "replaceAllBySpace c s = map (\<lambda>x. if x = c then 32 else x) s"

definition humanizeName :: "jsstring \<Rightarrow> jsstring" where
  "humanizeName nm =
     trim (replaceAllBySpace (cu CHR ''-'') (replaceAllBySpace (cu CHR ''_'') (splitCamel nm)))"

definition plural :: "nat \<Rightarrow> jsstring \<Rightarrow> jsstring" where
  "plural n word =
     (if n = 1 then showNat n @ str '' '' @ word
      else showNat n @ str '' '' @ word @ str ''s'')"

fun kindLabel :: "FileNodeKind \<Rightarrow> jsstring" where
  "kindLabel KFunction = str ''function''"
| "kindLabel KClass = str ''class''"
| "kindLabel KVariable = str ''variable''"
| "kindLabel KImport = str ''import''"
| "kindLabel KExport = str ''export''"
| "kindLabel KControl = str ''control structure''"
| "kindLabel KType = str ''type definition''"

text \<open>
  \<open>groupByKind\<close> fills a \<open>Map\<close>, which keeps its keys in the order of their first insertion:
  an association list, a new kind appended at the end.
\<close>

fun addToGroup :: "FileNode \<Rightarrow> (FileNodeKind \<times> FileNode list) list \<Rightarrow> (FileNodeKind \<times> FileNode list) list" where
  "addToGroup n [] = [(kind n, [n])]"
| "addToGroup n ((k, ns) # gs) =
     (if k = kind n then (k, ns @ [n]) # gs else (k, ns) # addToGroup n gs)"

definition groupByKind :: "FileNode list \<Rightarrow> (FileNodeKind \<times> FileNode list) list" where
  "groupByKind nodes = fold addToGroup nodes []"

definition kindPart :: "FileNodeKind \<times> FileNode list \<Rightarrow> jsstring" where
  "kindPart g =
     (let nodes = snd g;
          names = filter (\<lambda>n. length n < 40) (map (\<lambda>n. humanizeName (name n)) nodes)
      in if length names \<le> 4
         then plural (length nodes) (kindLabel (fst g)) @ str '' ('' @ join (str '', '') names @ str '')''
         else plural (length nodes) (kindLabel (fst g)))"

definition fileSummary :: "FileStructure \<Rightarrow> jsstring" where
  "fileSummary structure =
     (let kindParts = map kindPart (groupByKind (declarations structure));
          parts1 = (if length kindParts > 0
                    then [str ''This file defines '' @ join (str '' and '') kindParts] else []);
          parts = parts1 @ (if length (fsImports structure) > 0
                    then [str ''imports from '' @ plural (length (fsImports structure)) (str ''module'')]
                    else [])
      in if length parts = 0 then str ''This file is empty or contains no recognizable constructs.''
         else join (str '' and '') parts @ str ''.'')"

definition paramDesc :: "Param \<Rightarrow> jsstring" where
  "paramDesc p =
     (case ptype p of
        Some t \<Rightarrow> if t \<noteq> [] then pname p @ str '' ('' @ t @ str '')'' else pname p
      | None \<Rightarrow> pname p)"

definition functionSummary :: "FileNode \<Rightarrow> jsstring" where
  "functionSummary node =
     humanizeName (name node) @ str '' is '' @ (if isAsync node then str ''an async '' else str ''a '')
       @ str ''function''
       @ (if length (params node) > 0
          then str '' that takes '' @ join (str '', '') (map paramDesc (params node)) else [])
       @ (if truthy (returnType node) then str '' and returns '' @ the (returnType node) else [])
       @ str ''.''"

definition functionDetail :: "ChildSummary \<Rightarrow> jsstring" where
  "functionDetail cs =
     (let detailParts =
            (if length (calledFunctions cs) > 0
             then [str ''calls '' @ join (str '', '') (take 5 (calledFunctions cs))
                     @ (if length (calledFunctions cs) > 5 then str '' and more'' else [])]
             else [])
          @ (if conditionCount cs > 0
             then [str ''checks '' @ plural (conditionCount cs) (str ''condition'')] else [])
          @ (if loopCount cs > 0
             then [str ''uses '' @ plural (loopCount cs) (str ''loop'')] else [])
          @ (if returnCount cs > 0
             then [str ''returns '' @ plural (returnCount cs) (str ''value'')] else [])
      in if length detailParts > 0
         then str ''Inside, it '' @ join (str '', '') detailParts @ str ''.''
         else [])"

definition classSummary :: "FileNode \<Rightarrow> jsstring" where
  "classSummary node =
     humanizeName (name node) @ str '' is a ''
       @ (if keyword node = str ''trait'' then str ''trait''
          else if keyword node = str ''struct'' then str ''struct'' else str ''class'')
       @ (if length (children node) > 0
          then (let methods = filter (\<lambda>c. kind c = KFunction) (children node);
                    props = filter (\<lambda>c. kind c = KVariable) (children node);
                    parts =
                      (if length methods > 0
                       then [plural (length methods) (str ''method'') @ str '' (''
                               @ join (str '', '') (take 5 (map (\<lambda>m. humanizeName (name m)) methods))
                               @ (if length methods > 5 then str '', ...'' else []) @ str '')'']
                       else [])
                      @ (if length props > 0 then [plural (length props) (str ''property'')] else [])
                in if length parts > 0 then str '' with '' @ join (str '' and '') parts else [])
          else [])
       @ str ''.''"

definition variableSummary :: "FileNode \<Rightarrow> jsstring" where
  "variableSummary node =
     (if keyword node = str ''component''
      then str ''Uses the '' @ humanizeName (name node) @ str '' component.''
      else humanizeName (name node) @ str '' is a ''
             @ (if keyword node = str ''const'' then str ''constant''
                else if keyword node = str ''let'' then str ''variable'' else str ''value'')
             @ (if isExported node then str '' (exported)'' else [])
             @ str ''.'')"

definition typeSummary :: "FileNode \<Rightarrow> jsstring" where
  "typeSummary node =
     (let typeKind = (if keyword node = str ''interface'' then str ''interface''
                      else if keyword node = str ''enum'' then str ''enum'' else str ''type alias'')
      in humanizeName (name node) @ str '' is ''
           @ (if typeKind = str ''enum'' then str ''an'' else str ''a'') @ str '' '' @ typeKind @ str ''.'')"

text \<open>
  The control case. \<open>kw.replace(/^\{#/, "").replace(/\}$/, "")\<close> strips the two leading
  code units and one closing brace at the end. \<open>descriptions[blockType]\<close> is a lookup in
  a plain object: the four block types have a sentence of their own, and a block type
  that names a member inherited from \<open>Object.prototype\<close> yields that member, which is
  truthy and is printed by the template as the platform prints it. The dash between the
  name and the sentence is the em dash, code unit 8212.
\<close>

definition inheritedMember :: "jsstring \<Rightarrow> jsstring option" where
  "inheritedMember key =
     (if key = str ''__proto__'' then Some (str ''[object Object]'')
      else if key = str ''constructor'' then Some (str ''function Object() { [native code] }'')
      else if key \<in> set [str ''hasOwnProperty'', str ''isPrototypeOf'', str ''propertyIsEnumerable'',
                         str ''toLocaleString'', str ''toString'', str ''valueOf'',
                         str ''__defineGetter__'', str ''__defineSetter__'',
                         str ''__lookupGetter__'', str ''__lookupSetter__'']
      then Some (str ''function '' @ key @ str ''() { [native code] }'')
      else None)"

definition stripClosingBrace :: "jsstring \<Rightarrow> jsstring" where
  "stripClosingBrace s = (if s \<noteq> [] \<and> last s = cu CHR ''}'' then butlast s else s)"

definition blockDescription :: "jsstring \<Rightarrow> jsstring" where
  "blockDescription blockType =
     (if blockType = str ''if'' then str ''Conditionally shows content based on a value.''
      else if blockType = str ''each'' then str ''Repeats content for each item in a list.''
      else if blockType = str ''await''
        then str ''Shows different content while waiting for a result, then when it arrives.''
      else if blockType = str ''key'' then str ''Re-creates content whenever a value changes.''
      else (case inheritedMember blockType of
              Some member \<Rightarrow> member
            | None \<Rightarrow> str ''A Svelte '' @ blockType @ str '' block.''))"

definition controlSummary :: "FileNode \<Rightarrow> jsstring" where
  "controlSummary node =
     (if startsWith (keyword node) (str ''{#'')
      then humanizeName (name node) @ [32, 8212, 32]
             @ blockDescription (stripClosingBrace (sliceFrom (keyword node) 2))
      else str ''A control structure ('' @ keyword node @ str '').'')"

record Explanation =
  summary :: jsstring
  detail :: jsstring

definition blockExplanation :: "FileNode \<Rightarrow> Explanation" where
  "blockExplanation node =
     (case kind node of
        KFunction \<Rightarrow> \<lparr>summary = functionSummary node, detail = functionDetail (childSummary node)\<rparr>
      | KClass \<Rightarrow> \<lparr>summary = classSummary node, detail = []\<rparr>
      | KVariable \<Rightarrow> \<lparr>summary = variableSummary node, detail = []\<rparr>
      | KType \<Rightarrow> \<lparr>summary = typeSummary node, detail = []\<rparr>
      | KControl \<Rightarrow> \<lparr>summary = controlSummary node, detail = []\<rparr>
      | _ \<Rightarrow> \<lparr>summary = humanizeName (name node) @ str '' ('' @ kindStr (kind node) @ str '').'',
               detail = []\<rparr>)"

section \<open>The outline builder (book-structure)\<close>

record NodeEntry =
  fileNode :: FileNode
  code :: jsstring
  depth :: nat

text \<open>
  The three things \<open>buildOutline\<close> updates while it walks: the lines, the \<open>Map\<close> from id
  to entry and the counter behind \<open>getId\<close>. A \<open>Map\<close> keeps its keys in insertion order:
  \<open>set\<close> replaces the value of a key that is there and appends a new key at the end.
\<close>

record OutlineState =
  outLines :: "jsstring list"
  nodeMap :: "(nat \<times> NodeEntry) list"
  nextId :: nat

fun mapSet :: "'k \<Rightarrow> 'v \<Rightarrow> ('k \<times> 'v) list \<Rightarrow> ('k \<times> 'v) list" where
  "mapSet k v [] = [(k, v)]"
| "mapSet k v ((k', v') # m) = (if k' = k then (k, v) # m else (k', v') # mapSet k v m)"

text \<open>\<open>lineNum\<close>: the loop runs over the indices below both the offset and the length.\<close>

fun lineNumLoop :: "jsstring \<Rightarrow> nat \<Rightarrow> nat \<Rightarrow> nat" where
  "lineNumLoop [] offset line = line"
| "lineNumLoop (c # cs) offset line =
     (if offset = 0 then line
      else lineNumLoop cs (offset - 1) (if c = 10 then line + 1 else line))"

definition lineNum :: "jsstring \<Rightarrow> nat \<Rightarrow> nat" where
  "lineNum doc offset = lineNumLoop doc offset 1"

text \<open>\<open>code.split("\n").slice(0, 2).join("\n")\<close>\<close>

definition preview :: "jsstring \<Rightarrow> jsstring" where
  "preview c = join [10] (take 2 (splitOn (\<lambda>x. x = 10) c))"

definition nodeLabel :: "FileNode \<Rightarrow> jsstring" where
  "nodeLabel node =
     (if kind node = KFunction
      then keyword node @ str '' '' @ name node @ str ''(''
             @ join (str '', '') (map pname (params node)) @ str '')''
      else keyword node @ str '' '' @ name node)"

definition linesSuffix :: "jsstring \<Rightarrow> nat \<Rightarrow> nat \<Rightarrow> jsstring" where
  "linesSuffix source a b =
     str '' (lines '' @ showNat (lineNum source a) @ str ''-'' @ showNat (lineNum source b) @ str '')''"

text \<open>What \<open>walkNode\<close> does at one node, before it goes on to the children.\<close>

definition visitNode :: "FileNode \<Rightarrow> nat \<Rightarrow> jsstring \<Rightarrow> OutlineState \<Rightarrow> OutlineState" where
  "visitNode node d source st =
     (let ident = nextId st;
          c = slice source (fromOff node) (toOff node);
          indent = concat (replicate d (str ''  ''))
      in \<lparr>outLines = outLines st
            @ [indent @ nodeLabel node @ linesSuffix source (fromOff node) (toOff node),
               indent @ str ''  '' @ preview c],
          nodeMap = mapSet ident \<lparr>fileNode = node, code = c, depth = d\<rparr> (nodeMap st),
          nextId = ident + 1\<rparr>)"

fun walkNode :: "FileNode \<Rightarrow> nat \<Rightarrow> jsstring \<Rightarrow> OutlineState \<Rightarrow> OutlineState"
  and walkNodes :: "FileNode list \<Rightarrow> nat \<Rightarrow> jsstring \<Rightarrow> OutlineState \<Rightarrow> OutlineState" where
  "walkNode (FileNode k nm ps rt a e kw f t ch cs) d source st =
     walkNodes ch (d + 1) source (visitNode (FileNode k nm ps rt a e kw f t ch cs) d source st)"
| "walkNodes [] d source st = st"
| "walkNodes (n # ns) d source st = walkNodes ns d source (walkNode n d source st)"

text \<open>
  The pseudo-node of the imports. \<open>Math.min\<close> and \<open>Math.max\<close> over all imports are
  folds; the group is built only when there is an import.
\<close>

definition minList :: "nat list \<Rightarrow> nat" where
  "minList xs = fold min (tl xs) (hd xs)"

definition maxList :: "nat list \<Rightarrow> nat" where
  "maxList xs = fold max (tl xs) (hd xs)"

definition syntheticNode :: "FileNode list \<Rightarrow> FileNode" where
  "syntheticNode imps =
     (let names = join (str '', '') (map name imps)
      in FileNode KImport
           (if length names > 60 then slice names 0 57 @ str ''...'' else names)
           [] None False False (str ''import'')
           (minList (map fromOff imps)) (maxList (map toOff imps)) [] emptySummary)"

definition visitImports :: "FileNode list \<Rightarrow> jsstring \<Rightarrow> OutlineState \<Rightarrow> OutlineState" where
  "visitImports imps doc st =
     (let firstFrom = minList (map fromOff imps);
          lastTo = maxList (map toOff imps);
          c = slice doc firstFrom lastTo;
          ident = nextId st
      in \<lparr>outLines = outLines st
            @ [str ''imports'' @ linesSuffix doc firstFrom lastTo, str ''  '' @ preview c],
          nodeMap = mapSet ident \<lparr>fileNode = syntheticNode imps, code = c, depth = 0\<rparr> (nodeMap st),
          nextId = ident + 1\<rparr>)"

record Outline =
  outline :: jsstring
  idIndex :: "(nat \<times> NodeEntry) list"

definition buildOutline :: "FileStructure \<Rightarrow> jsstring \<Rightarrow> Outline" where
  "buildOutline structure doc =
     (let st0 = \<lparr>outLines = [], nodeMap = [], nextId = 1\<rparr>;
          st1 = (if length (fsImports structure) > 0
                 then visitImports (fsImports structure) doc st0 else st0);
          st2 = walkNodes (declarations structure) 0 doc st1
      in \<lparr>outline = join [10] (outLines st2), idIndex = nodeMap st2\<rparr>)"

text \<open>The pre-order of a declaration and of a list of declarations.\<close>

fun preorder :: "FileNode \<Rightarrow> FileNode list"
  and preorders :: "FileNode list \<Rightarrow> FileNode list" where
  "preorder (FileNode k nm ps rt a e kw f t ch cs) =
     FileNode k nm ps rt a e kw f t ch cs # preorders ch"
| "preorders [] = []"
| "preorders (n # ns) = preorder n @ preorders ns"

section \<open>The description service and its cache (ai-prose)\<close>

record Request =
  reqFilename :: jsstring
  reqFileContent :: jsstring
  reqProjectFiles :: "jsstring list"
  reqOutline :: jsstring

record Response =
  respText :: "jsstring option"
  respError :: "jsstring option"

record DescribeResult =
  resText :: "jsstring option"
  resError :: "jsstring option"
  truncated :: "bool option"

text \<open>
  The module state is the cache; \<open>sent\<close> is the list of the requests that have reached
  \<open>window.ai.describe\<close>, in order, which makes the calls of the service observable.
\<close>

record 'k DescribeState =
  cache :: "'k \<rightharpoonup> jsstring"
  sent :: "Request list"

definition CACHE_VERSION :: jsstring where
  "CACHE_VERSION = str ''v5-prose''"

definition MAX_CONTENT_SIZE :: nat where
  "MAX_CONTENT_SIZE = 30000"

text \<open>
  \<open>hashKey\<close> digests the version, the file name and the content, separated by a zero
  code unit. The digest (SHA-256 of the platform, in hexadecimal) is the parameter
  \<open>digest\<close>.
\<close>

definition hashKey :: "(jsstring \<Rightarrow> 'k) \<Rightarrow> jsstring \<Rightarrow> jsstring \<Rightarrow> 'k" where
  "hashKey digest filename content = digest (CACHE_VERSION @ [0] @ filename @ [0] @ content)"

text \<open>
  \<open>describeFile\<close>, one call run to its end: a call starts after the call before it has
  returned. \<open>svc\<close> is the answer of the external service to the request of this call.
  A cached text that is the empty string is falsy and counts as a miss, and so does a
  text of the service in \<open>if (result.text)\<close>. A hit returns \<open>{ text: cached }\<close>, with
  no \<open>error\<close> and no \<open>truncated\<close> field.
\<close>

definition describeFile ::
  "(jsstring \<Rightarrow> 'k) \<Rightarrow> (Request \<Rightarrow> Response) \<Rightarrow> jsstring \<Rightarrow> jsstring \<Rightarrow> jsstring list \<Rightarrow> jsstring
     \<Rightarrow> 'k DescribeState \<Rightarrow> DescribeResult \<times> 'k DescribeState" where
  "describeFile digest svc filename content projectFiles outl st =
     (let key = hashKey digest filename content;
          cached = cache st key
      in if truthy cached then (\<lparr>resText = cached, resError = None, truncated = None\<rparr>, st)
         else
           (let trunc = (length content > MAX_CONTENT_SIZE);
                fileContent = (if trunc then slice content 0 MAX_CONTENT_SIZE else content);
                req = \<lparr>reqFilename = filename, reqFileContent = fileContent,
                       reqProjectFiles = projectFiles, reqOutline = outl\<rparr>;
                result = svc req
            in (\<lparr>resText = respText result, resError = respError result, truncated = Some trunc\<rparr>,
                st\<lparr>cache := (if truthy (respText result)
                               then (cache st)(key \<mapsto> the (respText result)) else cache st),
                   sent := sent st @ [req]\<rparr>)))"

section \<open>The parse tree\<close>

text \<open>
  The tree of the parser, read-only: a node has a grammar tag, a span \<open>[from, to)\<close> and
  its children in order (\<open>firstChild\<close> and \<open>nextSibling\<close> run through them). The parent
  and the previous sibling of a node, which the source reaches through \<open>node.parent\<close> and
  \<open>node.prevSibling\<close>, are passed along by the functions that need them.
\<close>

datatype SyntaxNode = SyntaxNode
  (nodeName: jsstring)
  (nodeFrom: nat)
  (nodeTo: nat)
  (nodeChildren: "SyntaxNode list")

text \<open>\<open>node.getChild(tag)\<close>: the first direct child with that tag.\<close>

definition getChild :: "SyntaxNode \<Rightarrow> jsstring \<Rightarrow> SyntaxNode option" where
  "getChild node tag = find (\<lambda>c. nodeName c = tag) (nodeChildren node)"

text \<open>\<open>node.getChild(a) || node.getChild(b) || ...\<close>: the first tag of the list with a child.\<close>

fun getChildOf :: "SyntaxNode \<Rightarrow> jsstring list \<Rightarrow> SyntaxNode option" where
  "getChildOf node [] = None"
| "getChildOf node (tag # tags) =
     (case getChild node tag of Some c \<Rightarrow> Some c | None \<Rightarrow> getChildOf node tags)"

definition firstChild :: "SyntaxNode \<Rightarrow> SyntaxNode option" where
  "firstChild node = (case nodeChildren node of [] \<Rightarrow> None | c # cs \<Rightarrow> Some c)"

text \<open>\<open>doc.sliceString(node.from, node.to)\<close>\<close>

definition nodeText :: "jsstring \<Rightarrow> SyntaxNode \<Rightarrow> jsstring" where
  "nodeText doc node = slice doc (nodeFrom node) (nodeTo node)"

text \<open>The children of a node, each with the tag of its previous sibling.\<close>

definition withPrev :: "SyntaxNode list \<Rightarrow> (jsstring option \<times> SyntaxNode) list" where
  "withPrev nodes = zip (None # map (\<lambda>c. Some (nodeName c)) nodes) nodes"

section \<open>The concept classifier (concepts, concept-panel)\<close>

definition categories :: "(jsstring \<times> jsstring list) list" where
  "categories =
     [(str ''declaration'',
        [str ''VariableDeclaration'', str ''FunctionDeclaration'', str ''ClassDeclaration'',
         str ''TypeAliasDeclaration'', str ''InterfaceDeclaration'', str ''EnumDeclaration'',
         str ''FunctionDefinition'', str ''ClassDefinition'',
         str ''LetDeclaration'', str ''FunctionItem'', str ''StructItem'', str ''EnumItem'',
         str ''TraitItem'', str ''ImplItem'', str ''TypeItem'', str ''ConstItem'', str ''StaticItem'',
         str ''UnionItem'', str ''ModItem'']),
      (str ''import-export'',
        [str ''ImportDeclaration'', str ''ExportDeclaration'', str ''ImportStatement'',
         str ''UseDeclaration'', str ''ExternCrateDeclaration'']),
      (str ''control-flow'',
        [str ''IfStatement'', str ''ForStatement'', str ''WhileStatement'', str ''DoStatement'',
         str ''SwitchStatement'', str ''TryStatement'',
         str ''IfExpression'', str ''MatchExpression'', str ''WhileExpression'',
         str ''ForExpression'', str ''LoopExpression'']),
      (str ''control-jump'',
        [str ''ReturnStatement'', str ''ThrowStatement'', str ''BreakStatement'',
         str ''ContinueStatement'', str ''RaiseStatement'',
         str ''ReturnExpression'', str ''BreakExpression'', str ''ContinueExpression'']),
      (str ''invocation'',
        [str ''CallExpression'', str ''NewExpression'', str ''TaggedTemplateExpression'',
         str ''MacroInvocation'']),
      (str ''data-literal'',
        [str ''String'', str ''Number'', str ''BooleanLiteral'', str ''RegExp'', str ''TemplateString'',
         str ''ArrayExpression'', str ''ObjectExpression'',
         str ''RawString'', str ''Char'', str ''Integer'', str ''Float'', str ''Boolean'',
         str ''TupleExpression'']),
      (str ''parameter'',
        [str ''ParamList'', str ''ArrayPattern'', str ''ObjectPattern'']),
      (str ''async'',
        [str ''AwaitExpression'', str ''YieldExpression'', str ''AsyncBlock'']),
      (str ''jsx'',
        [str ''JSXElement'', str ''JSXSelfClosingTag''])]"

text \<open>
  The loop that fills \<open>conceptMap\<close>: every tag of every category is assigned its
  category, a later assignment replacing an earlier one. A tag of the grammar that is
  not assigned has no category.
\<close>

definition conceptMap :: "jsstring \<rightharpoonup> jsstring" where
  "conceptMap =
     fold (\<lambda>(category, nodeNames) m. fold (\<lambda>nm m'. m'(nm \<mapsto> category)) nodeNames m)
       categories Map.empty"

record ConceptInstance =
  ciCategory :: jsstring
  ciNodeName :: jsstring
  ciFrom :: nat
  ciTo :: nat
  ciText :: jsstring
  ciLine :: nat

text \<open>
  \<open>doc.lineAt(pos).number\<close>: the lines are numbered from 1 and a line break is one code
  unit of the document. It is asked at offsets of tree nodes only, which lie in the
  document.
\<close>

definition lineAt :: "jsstring \<Rightarrow> nat \<Rightarrow> nat" where
  "lineAt doc pos = 1 + length (filter (\<lambda>c. c = 10) (take pos doc))"

text \<open>
  \<open>tree.iterate\<close> calls \<open>enter\<close> on every node in pre-order and leaves out the children
  of a node where \<open>enter\<close> returns \<open>false\<close>: a node with a category is recorded and its
  children are not visited.
\<close>

fun extractConcepts :: "jsstring \<Rightarrow> SyntaxNode \<Rightarrow> ConceptInstance list" where
  "extractConcepts doc (SyntaxNode nm f t ch) =
     (case conceptMap nm of
        Some category \<Rightarrow>
          [\<lparr>ciCategory = category, ciNodeName = nm, ciFrom = f, ciTo = t,
            ciText = slice doc f t, ciLine = lineAt doc f\<rparr>]
      | None \<Rightarrow> concat (map (extractConcepts doc) ch))"

text \<open>
  The shape of a tree of the parser: the span of a node is not reversed, the children
  lie inside it, in order and without overlap.
\<close>

fun siblingsOrdered :: "nat \<Rightarrow> nat \<Rightarrow> SyntaxNode list \<Rightarrow> bool" where
  "siblingsOrdered lo hi [] = (lo \<le> hi)"
| "siblingsOrdered lo hi (c # cs) =
     (lo \<le> nodeFrom c \<and> nodeFrom c \<le> nodeTo c \<and> siblingsOrdered (nodeTo c) hi cs)"

fun wellFormed :: "SyntaxNode \<Rightarrow> bool" where
  "wellFormed (SyntaxNode nm f t ch) =
     (siblingsOrdered f t ch \<and> (\<forall>c \<in> set ch. wellFormed c))"

text \<open>A list of recorded spans that follow one another between two bounds.\<close>

fun spansOrdered :: "nat \<Rightarrow> nat \<Rightarrow> ConceptInstance list \<Rightarrow> bool" where
  "spansOrdered lo hi [] = (lo \<le> hi)"
| "spansOrdered lo hi (i # is) =
     (lo \<le> ciFrom i \<and> ciFrom i \<le> ciTo i \<and> spansOrdered (ciTo i) hi is)"

section \<open>The structural extractor (editor.ts, \<open>extractFileStructure\<close>)\<close>

text \<open>
  Every \<open>lang\<close> that the extractor is given is a result of \<open>detectLanguage\<close> (or the
  literal \<open>"js"\<close> of the Svelte walk): one of the four strings \<open>js\<close>, \<open>py\<close>, \<open>rs\<close> and
  \<open>svelte\<close>. The languages are therefore a datatype.
\<close>

datatype Language = LJs | LPy | LRs | LSvelte

fun languageName :: "Language \<Rightarrow> jsstring" where
  "languageName LJs = str ''js''"
| "languageName LPy = str ''py''"
| "languageName LRs = str ''rs''"
| "languageName LSvelte = str ''svelte''"

text \<open>\<open>filename.split(".").pop()\<close> is the part after the last dot, the whole name without one.\<close>

definition detectLanguage :: "jsstring \<Rightarrow> Language" where
  "detectLanguage filename =
     (let ext = last (splitOn (\<lambda>c. c = cu CHR ''.'') filename)
      in if ext = str ''svelte'' then LSvelte
         else if ext \<in> set [str ''js'', str ''ts'', str ''jsx'', str ''tsx'', str ''mjs''] then LJs
         else if ext = str ''py'' then LPy
         else if ext = str ''rs'' then LRs
         else LJs)"

text \<open>
  The per-language tables. \<open>table[lang] || table.js\<close>: the row of the language, and the row
  of \<open>js\<close> for \<open>svelte\<close>, which has no row (an empty row is an array, which is truthy).
\<close>

definition langRow :: "jsstring list \<Rightarrow> jsstring list \<Rightarrow> jsstring list \<Rightarrow> Language \<Rightarrow> jsstring list" where
  "langRow js py rs lang =
     (case lang of LJs \<Rightarrow> js | LPy \<Rightarrow> py | LRs \<Rightarrow> rs | LSvelte \<Rightarrow> js)"

definition nameNodes :: "Language \<Rightarrow> jsstring list" where
  "nameNodes = langRow [str ''VariableDefinition'', str ''PropertyDefinition'']
     [str ''VariableName''] [str ''BoundIdentifier'', str ''TypeIdentifier'']"

definition funcNodes :: "Language \<Rightarrow> jsstring list" where
  "funcNodes = langRow
     [str ''FunctionDeclaration'', str ''FunctionExpression'', str ''ArrowFunction'',
      str ''MethodDeclaration'']
     [str ''FunctionDefinition''] [str ''FunctionItem'']"

definition classNodes :: "Language \<Rightarrow> jsstring list" where
  "classNodes = langRow [str ''ClassDeclaration'', str ''ClassExpression''] [str ''ClassDefinition'']
     [str ''StructItem'', str ''EnumItem'', str ''TraitItem'', str ''ImplItem'']"

definition importNodes :: "Language \<Rightarrow> jsstring list" where
  "importNodes = langRow [str ''ImportDeclaration''] [str ''ImportStatement'']
     [str ''UseDeclaration'', str ''ExternCrateDeclaration'']"

definition exportNodes :: "Language \<Rightarrow> jsstring list" where
  "exportNodes = langRow [str ''ExportDeclaration''] [] []"

definition typeNodes :: "Language \<Rightarrow> jsstring list" where
  "typeNodes = langRow
     [str ''TypeAliasDeclaration'', str ''InterfaceDeclaration'', str ''EnumDeclaration'']
     [] [str ''TypeItem'']"

definition varNodes :: "Language \<Rightarrow> jsstring list" where
  "varNodes = langRow [str ''VariableDeclaration''] [str ''AssignStatement'']
     [str ''LetDeclaration'', str ''ConstItem'', str ''StaticItem'']"

definition controlNodes :: "jsstring list" where
  "controlNodes =
     [str ''IfStatement'', str ''ForStatement'', str ''WhileStatement'', str ''DoStatement'',
      str ''SwitchStatement'', str ''TryStatement'',
      str ''IfExpression'', str ''MatchExpression'', str ''WhileExpression'',
      str ''ForExpression'', str ''LoopExpression'']"

definition loopNodes :: "jsstring list" where
  "loopNodes =
     [str ''ForStatement'', str ''WhileStatement'', str ''DoStatement'',
      str ''WhileExpression'', str ''ForExpression'', str ''LoopExpression'']"

definition conditionNodes :: "jsstring list" where
  "conditionNodes =
     [str ''IfStatement'', str ''SwitchStatement'', str ''TryStatement'',
      str ''IfExpression'', str ''MatchExpression'']"

text \<open>The fallback of \<open>extractName\<close>: the first line of the first 60 code units, trimmed.\<close>

definition firstLineLabel :: "jsstring \<Rightarrow> SyntaxNode \<Rightarrow> jsstring" where
  "firstLineLabel doc node =
     (let text = slice doc (nodeFrom node) (min (nodeTo node) (nodeFrom node + 60));
          first = trim (hd (splitOn (\<lambda>c. c = 10) text))
      in if length first > 40 then slice first 0 37 @ str ''...'' else first)"

text \<open>The loop over the declarator tags: the identifier one level inside a declarator.\<close>

fun declaratorInner :: "SyntaxNode \<Rightarrow> jsstring list \<Rightarrow> SyntaxNode option" where
  "declaratorInner node [] = None"
| "declaratorInner node (declName # rest) =
     (case getChild node declName of
        Some decl \<Rightarrow>
          (case getChildOf decl [str ''VariableDefinition'', str ''VariableName''] of
             Some inner \<Rightarrow> Some inner
           | None \<Rightarrow> declaratorInner node rest)
      | None \<Rightarrow> declaratorInner node rest)"

function extractName :: "jsstring \<Rightarrow> Language \<Rightarrow> SyntaxNode \<Rightarrow> jsstring" where
  "extractName doc lang node =
     (case getChildOf node (nameNodes lang) of
        Some child \<Rightarrow> nodeText doc child
      | None \<Rightarrow>
     (case getChildOf node [str ''VariableDefinition'', str ''VariableName'', str ''BoundIdentifier''] of
        Some fnName \<Rightarrow> nodeText doc fnName
      | None \<Rightarrow>
     (case declaratorInner node [str ''VariableDeclarator'', str ''VariableDefinition''] of
        Some inner \<Rightarrow> nodeText doc inner
      | None \<Rightarrow>
     (case getChildOf node
             [str ''FunctionDeclaration'', str ''ClassDeclaration'', str ''VariableDeclaration''] of
        Some exportChild \<Rightarrow> extractName doc lang exportChild
      | None \<Rightarrow>
     (case getChildOf node [str ''TypeIdentifier'', str ''TypeName''] of
        Some typeId \<Rightarrow> nodeText doc typeId
      | None \<Rightarrow> firstLineLabel doc node)))))"
  by pat_completeness auto
termination
proof (relation "measure (\<lambda>(doc, lang, node). size node)", goal_cases)
  case 1
  show ?case by simp
next
  case (2 doc lang node exportChild)
  note found = this
  have one: "size c < size n" if "getChild n tag = Some c" for n tag c
    using that by (cases n) (auto simp: getChild_def find_Some_iff less_Suc_eq_le
        intro!: size_list_estimation' [where f = size])
  have "size c < size n" if "getChildOf n tags = Some c" for n tags c
    using that by (induction tags) (auto split: option.splits dest: one)
  from this[OF found(4)] show ?case by simp
qed

text \<open>\<open>s.replace(/^:\s*/, "")\<close> and \<open>s.replace(/^\s*->\s*/, "")\<close>\<close>

definition stripColon :: "jsstring \<Rightarrow> jsstring" where
  "stripColon s = (case s of [] \<Rightarrow> [] | c # cs \<Rightarrow> if c = cu CHR '':'' then dropWhile is_ws cs else s)"

definition stripArrow :: "jsstring \<Rightarrow> jsstring" where
  "stripArrow s =
     (let r = dropWhile is_ws s
      in if startsWith r (str ''->'') then dropWhile is_ws (drop 2 r) else s)"

definition paramOf :: "jsstring \<Rightarrow> SyntaxNode \<Rightarrow> Param list" where
  "paramOf doc child =
     (if nodeName child \<noteq> str ''('' \<and> nodeName child \<noteq> str '')'' \<and> nodeName child \<noteq> str '',''
         \<and> nodeName child \<noteq> str ''...''
      then (let nm = (case getChildOf child
                             [str ''VariableDefinition'', str ''VariableName'', str ''BoundIdentifier''] of
                        Some nameChild \<Rightarrow> nodeText doc nameChild
                      | None \<Rightarrow>
                          trim (hd (splitOn (\<lambda>c. c = cu CHR '','' \<or> c = cu CHR '':'' \<or> c = cu CHR ''='')
                                      (nodeText doc child))))
            in if nm \<noteq> [] \<and> nm \<noteq> str ''('' \<and> nm \<noteq> str '')''
               then [\<lparr>pname = nm,
                      ptype = map_option (\<lambda>typeAnn. stripColon (nodeText doc typeAnn))
                                (getChild child (str ''TypeAnnotation''))\<rparr>]
               else [])
      else [])"

definition extractParams :: "jsstring \<Rightarrow> SyntaxNode \<Rightarrow> Param list" where
  "extractParams doc node =
     (case getChildOf node [str ''ParamList'', str ''Parameters'', str ''TypeParamList''] of
        None \<Rightarrow> []
      | Some paramList \<Rightarrow> concat (map (paramOf doc) (nodeChildren paramList)))"

definition extractReturnType :: "jsstring \<Rightarrow> SyntaxNode \<Rightarrow> jsstring option" where
  "extractReturnType doc node =
     (case getChild node (str ''TypeAnnotation'') of
        Some typeAnn \<Rightarrow> Some (stripArrow (stripColon (nodeText doc typeAnn)))
      | None \<Rightarrow>
          (case getChildOf node [str ''ReturnType'', str ''TypeIdentifier''] of
             Some retType \<Rightarrow> Some (stripArrow (nodeText doc retType))
           | None \<Rightarrow> None))"

section \<open>The child summary\<close>

definition callNodes :: "jsstring list" where
  "callNodes = [str ''CallExpression'', str ''NewExpression'', str ''MacroInvocation'']"

definition returnNodes :: "jsstring list" where
  "returnNodes = [str ''ReturnStatement'', str ''ReturnExpression'']"

text \<open>The tags at which \<open>walkForSummary\<close> stops: the set \<open>skip\<close> of the source.\<close>

definition skipNodes :: "jsstring list" where
  "skipNodes =
     [str ''FunctionDeclaration'', str ''FunctionExpression'', str ''ArrowFunction'',
      str ''FunctionDefinition'', str ''FunctionItem'', str ''MethodDeclaration'']"

text \<open>
  A call: the count goes up, and the name of the callee, the text of the first child
  after its last dot and before its first parenthesis, is pushed when it is not empty
  and shorter than 40.
\<close>

definition calleeName :: "jsstring \<Rightarrow> SyntaxNode \<Rightarrow> jsstring" where
  "calleeName doc callee =
     trim (hd (splitOn (\<lambda>c. c = cu CHR ''('')
                 (last (splitOn (\<lambda>c. c = cu CHR ''.'') (nodeText doc callee)))))"

definition countCall :: "jsstring \<Rightarrow> SyntaxNode list \<Rightarrow> ChildSummary \<Rightarrow> ChildSummary" where
  "countCall doc ch summ =
     (let s1 = summ\<lparr>callCount := callCount summ + 1\<rparr>
      in case ch of
           [] \<Rightarrow> s1
         | callee # rest \<Rightarrow>
             (let nm = calleeName doc callee
              in if nm \<noteq> [] \<and> length nm < 40
                 then s1\<lparr>calledFunctions := calledFunctions s1 @ [nm]\<rparr> else s1))"

definition countNode :: "jsstring \<Rightarrow> jsstring \<Rightarrow> SyntaxNode list \<Rightarrow> ChildSummary \<Rightarrow> ChildSummary" where
  "countNode doc nm ch summ =
     (let s1 = (if nm \<in> set callNodes then countCall doc ch summ else summ);
          s2 = (if nm \<in> set conditionNodes then s1\<lparr>conditionCount := conditionCount s1 + 1\<rparr> else s1);
          s3 = (if nm \<in> set loopNodes then s2\<lparr>loopCount := loopCount s2 + 1\<rparr> else s2)
      in if nm \<in> set returnNodes then s3\<lparr>returnCount := returnCount s3 + 1\<rparr> else s3)"

fun walkForSummary :: "jsstring \<Rightarrow> SyntaxNode \<Rightarrow> ChildSummary \<Rightarrow> ChildSummary" where
  "walkForSummary doc (SyntaxNode nm f t ch) summ =
     (if nm \<in> set skipNodes then countNode doc nm ch summ
      else fold (walkForSummary doc) ch (countNode doc nm ch summ))"

definition buildChildSummary :: "jsstring \<Rightarrow> SyntaxNode \<Rightarrow> ChildSummary" where
  "buildChildSummary doc node =
     (let summ = fold (walkForSummary doc) (nodeChildren node) emptySummary
      in summ\<lparr>calledFunctions := dedupe (calledFunctions summ)\<rparr>)"

section \<open>Classification and the declaration nodes\<close>

definition classifyNode :: "SyntaxNode \<Rightarrow> Language \<Rightarrow> FileNodeKind option" where
  "classifyNode node lang =
     (if nodeName node \<in> set (funcNodes lang) then Some KFunction
      else if nodeName node \<in> set (classNodes lang) then Some KClass
      else if nodeName node \<in> set (importNodes lang) then Some KImport
      else if nodeName node \<in> set (exportNodes lang) then Some KExport
      else if nodeName node \<in> set (typeNodes lang) then Some KType
      else if nodeName node \<in> set (varNodes lang) then Some KVariable
      else if nodeName node \<in> set controlNodes then Some KControl
      else None)"

text \<open>
  \<open>isExported\<close> looks at the tag of the parent and at the tag of the previous sibling,
  which are arguments here (\<open>None\<close> where the node has none).
\<close>

definition isExportedNode :: "jsstring option \<Rightarrow> jsstring option \<Rightarrow> bool" where
  "isExportedNode parent prev \<longleftrightarrow>
     parent = Some (str ''ExportDeclaration'') \<or> prev = Some (str ''export'')"

definition isAsyncNode :: "jsstring \<Rightarrow> SyntaxNode \<Rightarrow> bool" where
  "isAsyncNode doc node =
     startsWith (trimStart (slice doc (nodeFrom node) (min (nodeTo node) (nodeFrom node + 20))))
       (str ''async'')"

text \<open>
  \<open>extractKeyword\<close> matches
  \<open>/^(export\s+)?(async\s+)?(const|let|...|mod)\b/\<close> against the first 30 code units.
  An optional prefix is tried first with the prefix and then without it; the white
  space after a prefix is taken whole, since what follows it must start with a letter.
  The alternatives are tried in their order, each with the word boundary after it.
\<close>

definition declKeywords :: "jsstring list" where
  "declKeywords =
     [str ''const'', str ''let'', str ''var'', str ''function'', str ''class'', str ''interface'',
      str ''type'', str ''enum'', str ''struct'', str ''trait'', str ''impl'', str ''fn'', str ''use'',
      str ''import'', str ''from'', str ''pub'', str ''mod'']"

definition keywordAt :: "jsstring \<Rightarrow> jsstring option" where
  "keywordAt s =
     find (\<lambda>k. startsWith s k
              \<and> (case drop (length k) s of [] \<Rightarrow> True | c # cs \<Rightarrow> \<not> is_word c))
       declKeywords"

definition afterPrefix :: "jsstring \<Rightarrow> jsstring \<Rightarrow> jsstring option" where
  "afterPrefix p s =
     (if startsWith s p
      then (case drop (length p) s of
              [] \<Rightarrow> None
            | c # cs \<Rightarrow> if is_ws c then Some (dropWhile is_ws cs) else None)
      else None)"

definition keywordAfterAsync :: "jsstring \<Rightarrow> jsstring option" where
  "keywordAfterAsync s =
     (case afterPrefix (str ''async'') s of
        Some r \<Rightarrow> (case keywordAt r of Some k \<Rightarrow> Some k | None \<Rightarrow> keywordAt s)
      | None \<Rightarrow> keywordAt s)"

definition matchKeyword :: "jsstring \<Rightarrow> jsstring option" where
  "matchKeyword s =
     (case afterPrefix (str ''export'') s of
        Some r \<Rightarrow> (case keywordAfterAsync r of Some k \<Rightarrow> Some k | None \<Rightarrow> keywordAfterAsync s)
      | None \<Rightarrow> keywordAfterAsync s)"

definition extractKeyword :: "jsstring \<Rightarrow> SyntaxNode \<Rightarrow> jsstring" where
  "extractKeyword doc node =
     (case matchKeyword (slice doc (nodeFrom node) (min (nodeTo node) (nodeFrom node + 30))) of
        Some k \<Rightarrow> k
      | None \<Rightarrow> nodeName node)"

text \<open>The nodes that were built, of a list of results (\<open>if (childNode) children.push(childNode)\<close>).\<close>

fun built :: "'a option list \<Rightarrow> 'a list" where
  "built [] = []"
| "built (None # rs) = built rs"
| "built (Some x # rs) = x # built rs"

function buildFileNode ::
  "jsstring \<Rightarrow> Language \<Rightarrow> jsstring option \<Rightarrow> jsstring option \<Rightarrow> SyntaxNode \<Rightarrow> FileNode option" where
  "buildFileNode doc lang parent prev node =
     (case classifyNode node lang of
        None \<Rightarrow> None
      | Some k \<Rightarrow>
          Some (FileNode k
            (extractName doc lang node)
            (if k = KFunction then extractParams doc node else [])
            (if k = KFunction then extractReturnType doc node else None)
            (isAsyncNode doc node)
            (isExportedNode parent prev)
            (extractKeyword doc node)
            (nodeFrom node)
            (nodeTo node)
            (if k = KFunction \<or> k = KClass
             then (case getChildOf node
                          [str ''Block'', str ''Body'', str ''ClassBody'', str ''DeclarationList''] of
                     None \<Rightarrow> []
                   | Some body \<Rightarrow>
                       built (map (\<lambda>(p, child). buildFileNode doc lang (Some (nodeName body)) p child)
                                (withPrev (nodeChildren body))))
             else [])
            (if k = KFunction \<or> k = KClass then buildChildSummary doc node else emptySummary)))"
  by pat_completeness auto
termination
proof (relation "measure (\<lambda>(doc, lang, parent, prev, node). size node)", goal_cases)
  case 1
  show ?case by simp
next
  case (2 doc lang parent prev node k body pc p child)
  note found = this
  have one: "size c < size n" if "getChild n tag = Some c" for n tag c
    using that by (cases n) (auto simp: getChild_def find_Some_iff less_Suc_eq_le
        intro!: size_list_estimation' [where f = size])
  have many: "size c < size n" if "getChildOf n tags = Some c" for n tags c
    using that by (induction tags) (auto split: option.splits dest: one)
  have inner: "size c < size n" if "c \<in> set (nodeChildren n)" for n c
    using that by (cases n) (auto simp: less_Suc_eq_le intro!: size_list_estimation' [where f = size])
  from found have "child \<in> set (nodeChildren body)"
    by (auto simp: withPrev_def dest: set_zip_rightD)
  from inner[OF this] many[OF found(3)] show ?case by simp
qed

text \<open>\<open>fileNode.isExported = true\<close> and \<open>{ ...fileNode, kind: "export" }\<close>\<close>

fun markExported :: "FileNode \<Rightarrow> FileNode" where
  "markExported (FileNode k nm ps rt a e kw f t ch cs) = FileNode k nm ps rt a True kw f t ch cs"

fun asExport :: "FileNode \<Rightarrow> FileNode" where
  "asExport (FileNode k nm ps rt a e kw f t ch cs) = FileNode KExport nm ps rt a e kw f t ch cs"

section \<open>The walk over the top-level nodes\<close>

text \<open>One child of an export wrapper, in the inner loop of \<open>walkJsNodes\<close>.\<close>

definition walkExportInner ::
  "jsstring \<Rightarrow> Language \<Rightarrow> jsstring option \<times> SyntaxNode \<Rightarrow> FileStructure \<Rightarrow> FileStructure" where
  "walkExportInner doc lang pi structure =
     (case buildFileNode doc lang (Some (str ''ExportDeclaration'')) (fst pi) (snd pi) of
        None \<Rightarrow> structure
      | Some fnode0 \<Rightarrow>
          (let fnode = markExported fnode0;
               s1 = (if kind fnode = KImport
                     then structure\<lparr>fsImports := fsImports structure @ [fnode]\<rparr>
                     else structure\<lparr>declarations := declarations structure @ [fnode]\<rparr>)
           in s1\<lparr>fsExports := fsExports s1 @ [asExport fnode]\<rparr>))"

text \<open>One round of the outer loop: \<open>parent\<close> is the tag of the parent of the nodes walked.\<close>

definition walkJsNode ::
  "jsstring \<Rightarrow> Language \<Rightarrow> jsstring option \<Rightarrow> jsstring option \<times> SyntaxNode \<Rightarrow> FileStructure
     \<Rightarrow> FileStructure" where
  "walkJsNode doc lang parent pn structure =
     (let prev = fst pn; node = snd pn in
      if nodeName node = str ''ExportDeclaration''
      then (let s1 = fold (walkExportInner doc lang) (withPrev (nodeChildren node)) structure
            in if (case firstChild node of None \<Rightarrow> True | Some c \<Rightarrow> classifyNode c lang = None)
               then (case buildFileNode doc lang parent prev node of
                       Some exportNode \<Rightarrow> s1\<lparr>fsExports := fsExports s1 @ [exportNode]\<rparr>
                     | None \<Rightarrow> s1)
               else s1)
      else (case buildFileNode doc lang parent prev node of
              None \<Rightarrow> structure
            | Some fnode \<Rightarrow>
                if kind fnode = KImport
                then structure\<lparr>fsImports := fsImports structure @ [fnode]\<rparr>
                else if kind fnode = KExport
                then structure\<lparr>fsExports := fsExports structure @ [fnode]\<rparr>
                else structure\<lparr>declarations := declarations structure @ [fnode]\<rparr>))"

text \<open>
  \<open>walkJsNodes\<close> over a node and its following siblings; it is called on the first child
  of the top node, so the nodes are all the children of their parent.
\<close>

definition walkJsNodes ::
  "SyntaxNode list \<Rightarrow> jsstring \<Rightarrow> Language \<Rightarrow> jsstring option \<Rightarrow> FileStructure \<Rightarrow> FileStructure" where
  "walkJsNodes nodes doc lang parent structure =
     fold (walkJsNode doc lang parent) (withPrev nodes) structure"

section \<open>Worked example and auxiliary predicates\<close>

definition emptyStructure :: "jsstring \<Rightarrow> FileStructure" where
  "emptyStructure lang = \<lparr>fsImports = [], fsExports = [], declarations = [], language = lang\<rparr>"

text \<open>No lower-case letter is directly followed by an upper-case one.\<close>

fun noCamel :: "jsstring \<Rightarrow> bool" where
  "noCamel (a # b # rest) = (\<not> (is_lower a \<and> is_upper b) \<and> noCamel (b # rest))"
| "noCamel s = True"


text \<open>The entries of the id index that a declaration and its descendants give, in pre-order.\<close>

fun entries :: "FileNode \<Rightarrow> nat \<Rightarrow> jsstring \<Rightarrow> NodeEntry list"
  and entriesList :: "FileNode list \<Rightarrow> nat \<Rightarrow> jsstring \<Rightarrow> NodeEntry list" where
  "entries (FileNode k nm ps rt a e kw f t ch cs) d source =
     \<lparr>fileNode = FileNode k nm ps rt a e kw f t ch cs, code = slice source f t, depth = d\<rparr>
       # entriesList ch (d + 1) source"
| "entriesList [] d source = []"
| "entriesList (n # ns) d source = entries n d source @ entriesList ns d source"

text \<open>A list numbered from \<open>i\<close> on.\<close>

fun number :: "nat \<Rightarrow> 'a list \<Rightarrow> (nat \<times> 'a) list" where
  "number i [] = []"
| "number i (x # xs) = (i, x) # number (Suc i) xs"

text \<open>Every key of the map is below the counter.\<close>

definition idsBelow :: "OutlineState \<Rightarrow> bool" where
  "idsBelow st \<longleftrightarrow> (\<forall>k \<in> fst ` set (nodeMap st). k < nextId st)"

definition importsEntry :: "FileStructure \<Rightarrow> jsstring \<Rightarrow> NodeEntry list" where
  "importsEntry structure doc =
     (if length (fsImports structure) > 0
      then [\<lparr>fileNode = syntheticNode (fsImports structure),
              code = slice doc (minList (map fromOff (fsImports structure)))
                       (maxList (map toOff (fsImports structure))),
              depth = 0\<rparr>]
      else [])"

text \<open>The nodes in the order \<open>buildOutline\<close> visits them.\<close>

definition visitedNodes :: "FileStructure \<Rightarrow> FileNode list" where
  "visitedNodes structure =
     (if length (fsImports structure) > 0 then [syntheticNode (fsImports structure)] else [])
     @ preorders (declarations structure)"

text \<open>The request that a call which reaches the service sends.\<close>

definition sentRequest :: "jsstring \<Rightarrow> jsstring \<Rightarrow> jsstring list \<Rightarrow> jsstring \<Rightarrow> Request" where
  "sentRequest filename content projectFiles outl =
     \<lparr>reqFilename = filename,
      reqFileContent = (if length content > MAX_CONTENT_SIZE then take MAX_CONTENT_SIZE content else content),
      reqProjectFiles = projectFiles, reqOutline = outl\<rparr>"

definition okService :: "Request \<Rightarrow> Response" where
  "okService req = \<lparr>respText = Some (str ''A description.''), respError = None\<rparr>"

definition failingService :: "Request \<Rightarrow> Response" where
  "failingService req = \<lparr>respText = None, respError = Some (str ''Network error: offline'')\<rparr>"

definition emptyState :: "jsstring DescribeState" where
  "emptyState = \<lparr>cache = Map.empty, sent = []\<rparr>"

definition longContent :: jsstring where
  "longContent = replicate 30001 97"

definition afterFirst :: "jsstring DescribeState" where
  "afterFirst = snd (describeFile id okService (str ''a.ts'') longContent [] [] emptyState)"

text \<open>\<open>const x = f(); log("abc");\<close> and its tree.\<close>

definition callInDeclaration :: SyntaxNode where
  "callInDeclaration =
     SyntaxNode (str ''Script'') 0 26
       [SyntaxNode (str ''VariableDeclaration'') 0 14
          [SyntaxNode (str ''const'') 0 5 [],
           SyntaxNode (str ''VariableDefinition'') 6 7 [],
           SyntaxNode (str ''Equals'') 8 9 [],
           SyntaxNode (str ''CallExpression'') 10 13
             [SyntaxNode (str ''VariableName'') 10 11 [],
              SyntaxNode (str ''ArgList'') 11 13 []],
           SyntaxNode (str '';'') 13 14 []],
        SyntaxNode (str ''ExpressionStatement'') 15 26
          [SyntaxNode (str ''CallExpression'') 15 25
             [SyntaxNode (str ''VariableName'') 15 18 [],
              SyntaxNode (str ''ArgList'') 18 25
                [SyntaxNode (str ''String'') 19 24 []]],
           SyntaxNode (str '';'') 25 26 []]]"

definition callInDeclarationDoc :: jsstring where
  "callInDeclarationDoc = str ''const x = f(); log(\"abc\");''"

text \<open>The category of a tag in a list of categories, the first that lists it.\<close>

fun categoryOf :: "(jsstring \<times> jsstring list) list \<Rightarrow> jsstring \<Rightarrow> jsstring option" where
  "categoryOf [] x = None"
| "categoryOf ((category, nodeNames) # cs) x =
     (if x \<in> set nodeNames then Some category else categoryOf cs x)"

text \<open>A structure with one import, a class with one method and a function.\<close>

definition exImport :: FileNode where
  "exImport = FileNode KImport (str ''a'') [] None False False (str ''import'') 0 19 [] emptySummary"

definition exMethod :: FileNode where
  "exMethod = FileNode KFunction (str ''m'') [] None False False (str ''m'') 30 36 [] emptySummary"

definition exClass :: FileNode where
  "exClass = FileNode KClass (str ''A'') [] None False False (str ''class'') 20 38 [exMethod] emptySummary"

definition exFunction :: FileNode where
  "exFunction = FileNode KFunction (str ''f'') [] None False False (str ''function'') 39 54 []
     emptySummary"

definition exStructure :: FileStructure where
  "exStructure = \<lparr>fsImports = [exImport], fsExports = [], declarations = [exClass, exFunction],
     language = str ''js''\<rparr>"

definition exDoc :: jsstring where
  "exDoc = str ''import a from \"m\"'' @ [10] @ str ''class A { m() {} }'' @ [10] @ str ''function f() {}''"

text \<open>\<open>function outer() { function inner() { bar(); } foo(); }\<close> and the tree of its declaration.\<close>

definition outerDoc :: jsstring where
  "outerDoc = str ''function outer() { function inner() { bar(); } foo(); }''"

definition innerFunction :: SyntaxNode where
  "innerFunction =
     SyntaxNode (str ''FunctionDeclaration'') 19 46
       [SyntaxNode (str ''function'') 19 27 [],
        SyntaxNode (str ''VariableDefinition'') 28 33 [],
        SyntaxNode (str ''ParamList'') 33 35
          [SyntaxNode (str ''('') 33 34 [], SyntaxNode (str '')'') 34 35 []],
        SyntaxNode (str ''Block'') 36 46
          [SyntaxNode (str ''{'') 36 37 [],
           SyntaxNode (str ''ExpressionStatement'') 38 44
             [SyntaxNode (str ''CallExpression'') 38 43
                [SyntaxNode (str ''VariableName'') 38 41 [],
                 SyntaxNode (str ''ArgList'') 41 43
                   [SyntaxNode (str ''('') 41 42 [], SyntaxNode (str '')'') 42 43 []]],
              SyntaxNode (str '';'') 43 44 []],
           SyntaxNode (str ''}'') 45 46 []]]"




text \<open>A tree without the descendants of its function-like nodes.\<close>

fun prune :: "SyntaxNode \<Rightarrow> SyntaxNode" where
  "prune (SyntaxNode nm f t ch) =
     SyntaxNode nm f t (if nm \<in> set skipNodes then [] else map prune ch)"


text \<open>What the walk does at one visited node.\<close>

definition countVisited :: "jsstring \<Rightarrow> SyntaxNode \<Rightarrow> ChildSummary \<Rightarrow> ChildSummary" where
  "countVisited doc v summ = countNode doc (nodeName v) (nodeChildren v) summ"

text \<open>
  The nodes built from the children of an export wrapper, each marked as exported, in
  the order of the children.
\<close>

definition exportedInner :: "jsstring \<Rightarrow> Language \<Rightarrow> SyntaxNode \<Rightarrow> FileNode list" where
  "exportedInner doc lang wrapper =
     map markExported
       (built (map (\<lambda>(p, child). buildFileNode doc lang (Some (str ''ExportDeclaration'')) p child)
                 (withPrev (nodeChildren wrapper))))"

text \<open>\<open>export function foo() {}\<close>, its tree and the two nodes built from it.\<close>

definition exportFooDoc :: jsstring where
  "exportFooDoc = str ''export function foo() {}''"

definition exportFoo :: SyntaxNode where
  "exportFoo =
     SyntaxNode (str ''ExportDeclaration'') 0 24
       [SyntaxNode (str ''export'') 0 6 [],
        SyntaxNode (str ''FunctionDeclaration'') 7 24
          [SyntaxNode (str ''function'') 7 15 [],
           SyntaxNode (str ''VariableDefinition'') 16 19 [],
           SyntaxNode (str ''ParamList'') 19 21
             [SyntaxNode (str ''('') 19 20 [], SyntaxNode (str '')'') 20 21 []],
           SyntaxNode (str ''Block'') 22 24
             [SyntaxNode (str ''{'') 22 23 [], SyntaxNode (str ''}'') 23 24 []]]]"

definition fooDeclaration :: FileNode where
  "fooDeclaration = FileNode KFunction (str ''foo'') [] None False True (str ''function'') 7 24 []
     emptySummary"

definition fooWrapper :: FileNode where
  "fooWrapper = FileNode KExport (str ''foo'') [] None False False (str ''function'') 0 24 []
     emptySummary"

text \<open>
  The file of the end-to-end scenario and its tree: an import, and an export wrapper
  around the declaration of \<open>foo\<close>. In the parameter list the type annotation of \<open>x\<close> is
  the sibling that follows the definition of \<open>x\<close>.
\<close>

definition e2eDoc :: jsstring where
  "e2eDoc = str ''import {a} from \"m\"'' @ [10]
     @ str ''export async function foo(x: number): Promise<void> {'' @ [10]
     @ str ''  for (const i of x) { bar(); baz(); }'' @ [10]
     @ str ''}''"

definition e2eImport :: SyntaxNode where
  "e2eImport =
     SyntaxNode (str ''ImportDeclaration'') 0 19
       [SyntaxNode (str ''import'') 0 6 [],
        SyntaxNode (str ''ImportGroup'') 7 10
          [SyntaxNode (str ''{'') 7 8 [],
           SyntaxNode (str ''VariableDefinition'') 8 9 [],
           SyntaxNode (str ''}'') 9 10 []],
        SyntaxNode (str ''from'') 11 15 [],
        SyntaxNode (str ''String'') 16 19 []]"

definition e2eLoop :: SyntaxNode where
  "e2eLoop =
     SyntaxNode (str ''ForStatement'') 76 112
       [SyntaxNode (str ''for'') 76 79 [],
        SyntaxNode (str ''ForOfSpec'') 80 94
          [SyntaxNode (str ''('') 80 81 [],
           SyntaxNode (str ''const'') 81 86 [],
           SyntaxNode (str ''VariableDefinition'') 87 88 [],
           SyntaxNode (str ''of'') 89 91 [],
           SyntaxNode (str ''VariableName'') 92 93 [],
           SyntaxNode (str '')'') 93 94 []],
        SyntaxNode (str ''Block'') 95 112
          [SyntaxNode (str ''{'') 95 96 [],
           SyntaxNode (str ''ExpressionStatement'') 97 103
             [SyntaxNode (str ''CallExpression'') 97 102
                [SyntaxNode (str ''VariableName'') 97 100 [],
                 SyntaxNode (str ''ArgList'') 100 102
                   [SyntaxNode (str ''('') 100 101 [], SyntaxNode (str '')'') 101 102 []]],
              SyntaxNode (str '';'') 102 103 []],
           SyntaxNode (str ''ExpressionStatement'') 104 110
             [SyntaxNode (str ''CallExpression'') 104 109
                [SyntaxNode (str ''VariableName'') 104 107 [],
                 SyntaxNode (str ''ArgList'') 107 109
                   [SyntaxNode (str ''('') 107 108 [], SyntaxNode (str '')'') 108 109 []]],
              SyntaxNode (str '';'') 109 110 []],
           SyntaxNode (str ''}'') 111 112 []]]"

definition e2eFunction :: SyntaxNode where
  "e2eFunction =
     SyntaxNode (str ''FunctionDeclaration'') 27 114
       [SyntaxNode (str ''async'') 27 32 [],
        SyntaxNode (str ''function'') 33 41 [],
        SyntaxNode (str ''VariableDefinition'') 42 45 [],
        SyntaxNode (str ''ParamList'') 45 56
          [SyntaxNode (str ''('') 45 46 [],
           SyntaxNode (str ''VariableDefinition'') 46 47 [],
           SyntaxNode (str ''TypeAnnotation'') 47 55
             [SyntaxNode (str '':'') 47 48 [],
              SyntaxNode (str ''TypeName'') 49 55 []],
           SyntaxNode (str '')'') 55 56 []],
        SyntaxNode (str ''TypeAnnotation'') 56 71
          [SyntaxNode (str '':'') 56 57 [],
           SyntaxNode (str ''ParameterizedType'') 58 71
             [SyntaxNode (str ''TypeName'') 58 65 [],
              SyntaxNode (str ''TypeArgList'') 65 71
                [SyntaxNode (str ''<'') 65 66 [],
                 SyntaxNode (str ''VoidType'') 66 70
                   [SyntaxNode (str ''void'') 66 70 []],
                 SyntaxNode (str ''>'') 70 71 []]]],
        SyntaxNode (str ''Block'') 72 114
          [SyntaxNode (str ''{'') 72 73 [],
           e2eLoop,
           SyntaxNode (str ''}'') 113 114 []]]"

definition e2eTree :: SyntaxNode where
  "e2eTree =
     SyntaxNode (str ''Script'') 0 114
       [e2eImport,
        SyntaxNode (str ''ExportDeclaration'') 20 114
          [SyntaxNode (str ''export'') 20 26 [],
           e2eFunction]]"

text \<open>What \<open>extractFileStructure\<close> builds for it: the walk over the children of the top node.\<close>

definition e2eStructure :: FileStructure where
  "e2eStructure =
     walkJsNodes (nodeChildren e2eTree) e2eDoc LJs (Some (nodeName e2eTree))
       \<lparr>fsImports = [], fsExports = [], declarations = [], language = languageName LJs\<rparr>"

text \<open>The declaration of \<open>foo\<close> in it, and its one child, the loop.\<close>

definition e2eLoopNode :: FileNode where
  "e2eLoopNode = FileNode KControl (str ''for (const i of x) { bar(); baz(); }'') [] None False False
     (str ''ForStatement'') 76 112 [] emptySummary"

definition e2eFoo :: FileNode where
  "e2eFoo = FileNode KFunction (str ''foo'') [\<lparr>pname = str ''x'', ptype = None\<rparr>]
     (Some (str ''Promise<void>'')) True True (str ''function'') 27 114 [e2eLoopNode]
     \<lparr>callCount = 2, conditionCount = 0, loopCount = 1, returnCount = 0,
      calledFunctions = [str ''bar'', str ''baz'']\<rparr>"







section \<open>Verified properties\<close>

subsection \<open>Evaluation of literals\<close>

lemma str_Nil [simp]: "str [] = []"
  by (simp add: str_def)

lemma str_Cons [simp]: "str (c # cs) = of_char c # str cs"
  by (simp add: str_def)

lemmas humanize_defs = humanizeName_def trim_def trimStart_def trimEnd_def
  replaceAllBySpace_def cu_def is_lower_def is_upper_def is_ws_def

subsection \<open>humanizeName\<close>

lemma splitCamel_head: "\<exists>ys. splitCamel (b # rest) = b # ys"
  by (cases rest) auto

lemma noCamel_Cons_nonlower: "\<not> is_lower b \<Longrightarrow> noCamel xs \<Longrightarrow> noCamel (b # xs)"
  by (cases xs) auto

lemma lower_not_upper: "is_lower a \<Longrightarrow> \<not> is_upper a" "is_upper a \<Longrightarrow> \<not> is_lower a"
  by (auto simp: is_lower_def is_upper_def)

lemma space_not_letter [simp]: "\<not> is_lower 32" "\<not> is_upper 32"
  by (auto simp: is_lower_def is_upper_def)

lemma noCamel_splitCamel: "noCamel (splitCamel s)"
proof (induction s rule: splitCamel.induct)
  case (1 a b rest)
  show ?case
  proof (cases "is_lower a \<and> is_upper b")
    case True
    with 1 have "noCamel (splitCamel rest)" by simp
    then have "noCamel (b # splitCamel rest)"
      using True by (intro noCamel_Cons_nonlower) (auto dest: lower_not_upper)
    then show ?thesis using True by simp
  next
    case False
    with 1 have ih: "noCamel (splitCamel (b # rest))" by simp
    obtain ys where ys: "splitCamel (b # rest) = b # ys" using splitCamel_head by blast
    have eq: "splitCamel (a # b # rest) = a # b # ys" using False ys by auto
    have "noCamel (a # b # ys)" using False ih ys by simp
    then show ?thesis by (simp only: eq)
  qed
qed simp_all

lemma splitCamel_noCamel: "noCamel s \<Longrightarrow> splitCamel s = s"
  by (induction s rule: splitCamel.induct) auto

lemma noCamel_replace: "noCamel s \<Longrightarrow> noCamel (replaceAllBySpace c s)"
  unfolding replaceAllBySpace_def
  by (induction s rule: noCamel.induct) auto

lemma noCamel_append: "noCamel (xs @ ys) \<Longrightarrow> noCamel xs \<and> noCamel ys"
proof (induction xs)
  case Nil
  then show ?case by simp
next
  case (Cons a xs)
  note p = Cons.prems and ih = Cons.IH
  show ?case
  proof (cases xs)
    case Nil
    with p show ?thesis by (cases ys) auto
  next
    case (Cons b zs)
    with p ih show ?thesis by auto
  qed
qed

lemma noCamel_trim: "noCamel s \<Longrightarrow> noCamel (trim s)"
proof -
  assume a: "noCamel s"
  have "takeWhile is_ws s @ dropWhile is_ws s = s" by simp
  with a have b: "noCamel (dropWhile is_ws s)" by (metis noCamel_append)
  let ?t = "dropWhile is_ws s"
  have "rev (dropWhile is_ws (rev ?t)) @ rev (takeWhile is_ws (rev ?t)) = ?t"
    by (metis rev_append rev_rev_ident takeWhile_dropWhile_id)
  with b have "noCamel (rev (dropWhile is_ws (rev ?t)))" by (metis noCamel_append)
  then show ?thesis by (simp add: trim_def trimStart_def trimEnd_def)
qed

lemma trimEnd_keeps_head:
  assumes "\<not> is_ws x"
  shows "\<exists>zs. rev (dropWhile is_ws (rev (x # t))) = x # zs"
proof -
  have "dropWhile is_ws (rev t @ [x]) = dropWhile is_ws (rev t) @ [x] \<or> dropWhile is_ws (rev t @ [x]) = [x]"
    using assms by (simp add: dropWhile_append)
  then obtain ys where "dropWhile is_ws (rev t @ [x]) = ys @ [x]" by auto
  then show ?thesis by simp
qed

lemma trimStart_trimEnd_aux:
  "t = [] \<or> \<not> is_ws (hd t) \<Longrightarrow>
     dropWhile is_ws (rev (dropWhile is_ws (rev t))) = rev (dropWhile is_ws (rev t))"
proof (cases t)
  case Nil
  then show ?thesis by simp
next
  case (Cons x t')
  assume "t = [] \<or> \<not> is_ws (hd t)"
  with Cons have nx: "\<not> is_ws x" by simp
  from trimEnd_keeps_head[OF nx, of t'] obtain zs where
    "rev (dropWhile is_ws (rev (x # t'))) = x # zs" by blast
  then show ?thesis using Cons nx by simp
qed

lemma trimStart_trimEnd: "trimStart (trimEnd (trimStart s)) = trimEnd (trimStart s)"
proof -
  have "dropWhile is_ws s = [] \<or> \<not> is_ws (hd (dropWhile is_ws s))"
    by (metis hd_dropWhile)
  from trimStart_trimEnd_aux[OF this] show ?thesis
    by (simp add: trimStart_def trimEnd_def)
qed

lemma trimEnd_idem: "trimEnd (trimEnd s) = trimEnd s"
  by (simp add: trimEnd_def)

lemma trim_idem: "trim (trim s) = trim s"
  by (simp add: trim_def trimStart_trimEnd trimEnd_idem)

lemma set_trim: "set (trim s) \<subseteq> set s"
proof -
  have "set (rev (dropWhile is_ws (rev (dropWhile is_ws s)))) \<subseteq> set (dropWhile is_ws s)"
    using set_dropWhileD by fastforce
  moreover have "set (dropWhile is_ws s) \<subseteq> set s" using set_dropWhileD by fastforce
  ultimately show ?thesis by (auto simp: trim_def trimStart_def trimEnd_def)
qed

lemma replace_absent: "c \<notin> set s \<Longrightarrow> replaceAllBySpace c s = s"
  unfolding replaceAllBySpace_def by (induction s) auto

lemma replace_removes: "c \<noteq> 32 \<Longrightarrow> c \<notin> set (replaceAllBySpace c s)"
  unfolding replaceAllBySpace_def by auto

lemma replace_keeps_absent: "d \<noteq> 32 \<Longrightarrow> d \<notin> set s \<Longrightarrow> d \<notin> set (replaceAllBySpace c s)"
  unfolding replaceAllBySpace_def by auto

lemma cu_vals: "cu CHR ''_'' = 95" "cu CHR ''-'' = 45"
  by (simp_all add: cu_def)


text \<open>
  C10: \<open>humanizeName\<close> is idempotent. After one application no lower-case letter is
  followed by an upper-case one, no underscore and no hyphen is left and the string is
  trimmed, so a second application changes nothing.
\<close>

theorem humanizeName_idempotent: "humanizeName (humanizeName s) = humanizeName s"
proof -
  let ?a = "replaceAllBySpace (cu CHR ''_'') (splitCamel s)"
  let ?b = "replaceAllBySpace (cu CHR ''-'') ?a"
  let ?r = "humanizeName s"
  have r: "?r = trim ?b" by (simp add: humanizeName_def)
  have nc: "noCamel ?r"
    unfolding r by (intro noCamel_trim noCamel_replace noCamel_splitCamel)
  have u: "cu CHR ''_'' \<notin> set ?b"
    by (intro replace_keeps_absent replace_removes) (simp_all add: cu_vals)
  have h: "cu CHR ''-'' \<notin> set ?b"
    by (intro replace_removes) (simp add: cu_vals)
  have u': "cu CHR ''_'' \<notin> set ?r" and h': "cu CHR ''-'' \<notin> set ?r"
    using u h set_trim[of ?b] unfolding r by auto
  have "humanizeName ?r = trim (replaceAllBySpace (cu CHR ''-'') (replaceAllBySpace (cu CHR ''_'') (splitCamel ?r)))"
    by (simp add: humanizeName_def)
  also have "\<dots> = trim ?r"
    by (simp add: splitCamel_noCamel[OF nc] replace_absent[OF u'] replace_absent[OF h'])
  also have "\<dots> = ?r" unfolding r by (rule trim_idem)
  finally show ?thesis .
qed


theorem humanizeName_idempotent_witness:
  "humanizeName (humanizeName (str '' loginUser_is-valid '')) = str ''login User is valid''
   \<and> humanizeName (str '' loginUser_is-valid '') = str ''login User is valid''"
  using humanizeName_idempotent [of "str '' loginUser_is-valid ''"]
  by (simp add: humanize_defs)

subsection \<open>Empty input\<close>

text \<open>
  C8: for a structure without imports, exports and declarations, whatever the language
  and the source text, \<open>buildOutline\<close> returns the empty outline text and the empty id
  index, and \<open>fileSummary\<close> returns the canned sentence. Both functions are total.
\<close>

theorem empty_structure:
  "buildOutline (emptyStructure lang) doc = \<lparr>outline = [], idIndex = []\<rparr>
   \<and> fileSummary (emptyStructure lang)
       = str ''This file is empty or contains no recognizable constructs.''"
  by (simp add: buildOutline_def fileSummary_def groupByKind_def emptyStructure_def)

subsection \<open>Outline ids\<close>

lemma number_append: "number i (xs @ ys) = number i xs @ number (i + length xs) ys"
  by (induction xs arbitrary: i) auto

lemma map_fst_number: "map fst (number i xs) = [i ..< i + length xs]"
  by (induction xs arbitrary: i) (auto simp: upt_rec)

lemma map_snd_number: "map snd (number i xs) = xs"
  by (induction xs arbitrary: i) auto

lemma mapSet_fresh: "k \<notin> fst ` set m \<Longrightarrow> mapSet k v m = m @ [(k, v)]"
  by (induction m) auto

lemma visitNode_spec:
  assumes "idsBelow st"
  shows "nodeMap (visitNode n d source st)
           = nodeMap st @ [(nextId st, \<lparr>fileNode = n, code = slice source (fromOff n) (toOff n), depth = d\<rparr>)]"
    and "nextId (visitNode n d source st) = nextId st + 1"
    and "idsBelow (visitNode n d source st)"
proof -
  have fresh: "nextId st \<notin> fst ` set (nodeMap st)"
    using assms unfolding idsBelow_def by auto
  show 1: "nodeMap (visitNode n d source st)
           = nodeMap st @ [(nextId st, \<lparr>fileNode = n, code = slice source (fromOff n) (toOff n), depth = d\<rparr>)]"
    by (simp add: visitNode_def Let_def mapSet_fresh[OF fresh])
  show 2: "nextId (visitNode n d source st) = nextId st + 1"
    by (simp add: visitNode_def Let_def)
  show "idsBelow (visitNode n d source st)"
    using assms unfolding idsBelow_def 1 2 by auto
qed

lemma walk_spec:
  "idsBelow st \<Longrightarrow>
     nodeMap (walkNode n d source st)
       = nodeMap st @ number (nextId st) (entries n d source)
     \<and> nextId (walkNode n d source st) = nextId st + length (entries n d source)
     \<and> idsBelow (walkNode n d source st)"
  "idsBelow st \<Longrightarrow>
     nodeMap (walkNodes ns d source st)
       = nodeMap st @ number (nextId st) (entriesList ns d source)
     \<and> nextId (walkNodes ns d source st) = nextId st + length (entriesList ns d source)
     \<and> idsBelow (walkNodes ns d source st)"
proof (induction n d source st and ns d source st rule: walkNode_walkNodes.induct)
  case (1 k nm ps rt a e kw f t ch cs d source st)
  let ?n = "FileNode k nm ps rt a e kw f t ch cs"
  let ?st1 = "visitNode ?n d source st"
  note v = visitNode_spec[OF "1.prems", of ?n d source]
  from "1.IH"[OF v(3)] have ih:
    "nodeMap (walkNodes ch (d + 1) source ?st1)
       = nodeMap ?st1 @ number (nextId ?st1) (entriesList ch (d + 1) source)"
    "nextId (walkNodes ch (d + 1) source ?st1) = nextId ?st1 + length (entriesList ch (d + 1) source)"
    "idsBelow (walkNodes ch (d + 1) source ?st1)"
    by auto
  show ?case
    using ih v(1,2) by simp
next
  case (2 d source st)
  then show ?case by simp
next
  case (3 n ns d source st)
  from "3.IH"(1)[OF "3.prems"] have a:
    "nodeMap (walkNode n d source st)
       = nodeMap st @ number (nextId st) (entries n d source)"
    "nextId (walkNode n d source st) = nextId st + length (entries n d source)"
    "idsBelow (walkNode n d source st)"
    by auto
  from "3.IH"(2)[OF a(3)] have b:
    "nodeMap (walkNodes ns d source (walkNode n d source st))
       = nodeMap (walkNode n d source st) @ number (nextId (walkNode n d source st)) (entriesList ns d source)"
    "nextId (walkNodes ns d source (walkNode n d source st)) = nextId (walkNode n d source st) + length (entriesList ns d source)"
    "idsBelow (walkNodes ns d source (walkNode n d source st))"
    by auto
  show ?case
    using a b by (simp add: number_append)
qed

lemma visitImports_spec:
  assumes "idsBelow st"
  shows "nodeMap (visitImports imps doc st)
     = nodeMap st @ [(nextId st, \<lparr>fileNode = syntheticNode imps,
             code = slice doc (minList (map fromOff imps)) (maxList (map toOff imps)), depth = 0\<rparr>)]"
    and "nextId (visitImports imps doc st) = nextId st + 1"
    and "idsBelow (visitImports imps doc st)"
proof -
  have fresh: "nextId st \<notin> fst ` set (nodeMap st)"
    using assms unfolding idsBelow_def by auto
  show 1: "nodeMap (visitImports imps doc st)
     = nodeMap st @ [(nextId st, \<lparr>fileNode = syntheticNode imps,
             code = slice doc (minList (map fromOff imps)) (maxList (map toOff imps)), depth = 0\<rparr>)]"
    by (simp add: visitImports_def Let_def mapSet_fresh[OF fresh])
  show 2: "nextId (visitImports imps doc st) = nextId st + 1"
    by (simp add: visitImports_def Let_def)
  show "idsBelow (visitImports imps doc st)"
    using assms unfolding idsBelow_def 1 2 by auto
qed

lemma map_fileNode_entries:
  "map fileNode (entries n d source) = preorder n"
  "map fileNode (entriesList ns d source) = preorders ns"
  by (induction n d source and ns d source rule: entries_entriesList.induct) auto

lemma buildOutline_index:
  "idIndex (buildOutline structure doc)
     = number 1 (importsEntry structure doc @ entriesList (declarations structure) 0 doc)"
proof -
  let ?st0 = "\<lparr>outLines = [], nodeMap = [], nextId = 1\<rparr>"
  define st1 where "st1 = (if length (fsImports structure) > 0
                 then visitImports (fsImports structure) doc ?st0 else ?st0)"
  have i0: "idsBelow ?st0" by (simp add: idsBelow_def)
  have s1: "nodeMap st1 = number 1 (importsEntry structure doc)"
    "nextId st1 = 1 + length (importsEntry structure doc)" "idsBelow st1"
    using visitImports_spec[OF i0, of "fsImports structure" doc] i0
    by (auto simp: st1_def importsEntry_def)
  have "nodeMap (walkNodes (declarations structure) 0 doc st1)
          = nodeMap st1 @ number (nextId st1) (entriesList (declarations structure) 0 doc)"
    using walk_spec(2)[OF s1(3)] by blast
  also have "\<dots> = number 1 (importsEntry structure doc @ entriesList (declarations structure) 0 doc)"
    by (simp only: s1 number_append)
  finally have "nodeMap (walkNodes (declarations structure) 0 doc st1)
     = number 1 (importsEntry structure doc @ entriesList (declarations structure) 0 doc)" .
  moreover have "idIndex (buildOutline structure doc)
     = nodeMap (walkNodes (declarations structure) 0 doc st1)"
    by (simp add: buildOutline_def st1_def Let_def)
  ultimately show ?thesis by simp
qed

text \<open>
  C5: the ids of the index are 1, 2, 3, ... in the order of insertion, and the nodes they
  are given to are the nodes in pre-order: the pseudo-node of the imports first when
  there is an import, then every top-level declaration followed by its descendants.
\<close>

theorem buildOutline_ids:
  "map fst (idIndex (buildOutline structure doc)) = [1 ..< 1 + length (visitedNodes structure)]
   \<and> map (\<lambda>e. fileNode (snd e)) (idIndex (buildOutline structure doc)) = visitedNodes structure"
proof -
  let ?es = "importsEntry structure doc @ entriesList (declarations structure) 0 doc"
  have m: "map fileNode ?es = visitedNodes structure"
    by (simp add: importsEntry_def visitedNodes_def map_fileNode_entries)
  then have l: "length ?es = length (visitedNodes structure)"
    by (metis length_map)
  have "map fst (idIndex (buildOutline structure doc)) = [1 ..< 1 + length ?es]"
    by (simp only: buildOutline_index map_fst_number)
  moreover have "map (\<lambda>e. fileNode (snd e)) (idIndex (buildOutline structure doc)) = map fileNode ?es"
    using map_snd_number[of 1 ?es] by (simp only: buildOutline_index flip: map_map comp_def[of fileNode snd])
  ultimately show ?thesis using m l by simp
qed

theorem buildOutline_ids_witness:
  "map fst (idIndex (buildOutline exStructure exDoc)) = [1, 2, 3, 4]
   \<and> map (\<lambda>e. fileNode (snd e)) (idIndex (buildOutline exStructure exDoc))
       = [syntheticNode [exImport], exClass, exMethod, exFunction]"
  using buildOutline_ids [of exStructure exDoc]
  by (simp add: visitedNodes_def exStructure_def exClass_def exFunction_def exMethod_def upt_rec)

subsection \<open>The description cache\<close>

lemma describeFile_miss:
  assumes "\<not> truthy (cache st (hashKey digest filename content))"
  shows "describeFile digest svc filename content projectFiles outl st =
     (let req = sentRequest filename content projectFiles outl; result = svc req in
      (\<lparr>resText = respText result, resError = respError result,
        truncated = Some (length content > MAX_CONTENT_SIZE)\<rparr>,
       \<lparr>cache = (if truthy (respText result)
                 then (cache st)(hashKey digest filename content \<mapsto> the (respText result))
                 else cache st),
        sent = sent st @ [req]\<rparr>))"
  using assms by (simp add: describeFile_def Let_def sentRequest_def slice_def)

lemma describeFile_hit:
  assumes "truthy (cache st (hashKey digest filename content))"
  shows "describeFile digest svc filename content projectFiles outl st =
     (\<lparr>resText = cache st (hashKey digest filename content), resError = None, truncated = None\<rparr>, st)"
  using assms by (simp add: describeFile_def Let_def)

text \<open>
  C3 (as the code has it): a call that is not served from the cache sends exactly one
  request; its content is the first 30000 code units of a longer content, with
  \<open>truncated = true\<close> in the result, and the whole content otherwise, with
  \<open>truncated = false\<close>. A call served from the cache sends nothing.
\<close>

theorem describeFile_truncation:
  "(\<not> truthy (cache st (hashKey digest filename content)) \<longrightarrow>
      sent (snd (describeFile digest svc filename content projectFiles outl st))
        = sent st @ [sentRequest filename content projectFiles outl]
      \<and> truncated (fst (describeFile digest svc filename content projectFiles outl st))
        = Some (length content > MAX_CONTENT_SIZE)
      \<and> (length content > MAX_CONTENT_SIZE \<longrightarrow>
           reqFileContent (sentRequest filename content projectFiles outl) = take MAX_CONTENT_SIZE content
           \<and> length (reqFileContent (sentRequest filename content projectFiles outl)) = MAX_CONTENT_SIZE)
      \<and> (length content \<le> MAX_CONTENT_SIZE \<longrightarrow>
           reqFileContent (sentRequest filename content projectFiles outl) = content))
   \<and> (truthy (cache st (hashKey digest filename content)) \<longrightarrow>
      sent (snd (describeFile digest svc filename content projectFiles outl st)) = sent st)"
  by (auto simp: describeFile_miss describeFile_hit Let_def sentRequest_def)

theorem describeFile_truncation_witness:
  "sent (snd (describeFile id okService (str ''a.ts'') longContent [] [] emptyState))
     = [\<lparr>reqFilename = str ''a.ts'', reqFileContent = replicate 30000 97, reqProjectFiles = [], reqOutline = []\<rparr>]
   \<and> truncated (fst (describeFile id okService (str ''a.ts'') longContent [] [] emptyState)) = Some True
   \<and> sent (snd (describeFile id okService (str ''a.ts'') (str ''let x'') [] [] emptyState))
     = [\<lparr>reqFilename = str ''a.ts'', reqFileContent = str ''let x'', reqProjectFiles = [], reqOutline = []\<rparr>]
   \<and> truncated (fst (describeFile id okService (str ''a.ts'') (str ''let x'') [] [] emptyState)) = Some False"
  using describeFile_truncation [of emptyState id "str ''a.ts''" longContent okService "[]" "[]"]
    describeFile_truncation [of emptyState id "str ''a.ts''" "str ''let x''" okService "[]" "[]"]
  by (simp add: emptyState_def longContent_def sentRequest_def MAX_CONTENT_SIZE_def)

text \<open>
  C3 as stated fails on a call served from the cache: for a content of 30001 code units
  described once before, the second call sends nothing to the service and its result
  has no \<open>truncated\<close> flag.
\<close>

theorem describeFile_truncation_counterexample:
  "truncated (fst (describeFile id okService (str ''a.ts'') longContent [] [] afterFirst)) \<noteq> Some True
   \<and> sent (snd (describeFile id okService (str ''a.ts'') longContent [] [] afterFirst)) = sent afterFirst
   \<and> length longContent > MAX_CONTENT_SIZE"
proof -
  have m: "\<not> truthy (cache emptyState (hashKey id (str ''a.ts'') longContent))"
    by (simp add: emptyState_def)
  have c: "cache afterFirst (hashKey id (str ''a.ts'') longContent) = Some (str ''A description.'')"
    unfolding afterFirst_def describeFile_miss[OF m]
    by (simp add: Let_def okService_def)
  then have h: "truthy (cache afterFirst (hashKey id (str ''a.ts'') longContent))" by simp
  show ?thesis
    unfolding describeFile_hit[OF h]
    by (simp add: longContent_def MAX_CONTENT_SIZE_def)
qed

lemma not_truthy_result_miss:
  assumes "describeFile digest svc filename content projectFiles outl st = (r, st')"
    and "\<not> truthy (resText r)"
  shows "\<not> truthy (cache st (hashKey digest filename content))"
proof
  assume h: "truthy (cache st (hashKey digest filename content))"
  from assms(1) have "resText r = cache st (hashKey digest filename content)"
    unfolding describeFile_hit[OF h] by auto
  with h assms(2) show False by simp
qed

lemma truthy_result_cached:
  assumes "describeFile digest svc filename content projectFiles outl st = (r, st')"
    and "truthy (resText r)"
  shows "cache st' (hashKey digest filename content) = resText r"
proof (cases "truthy (cache st (hashKey digest filename content))")
  case True
  from assms(1) show ?thesis unfolding describeFile_hit[OF True] by auto
next
  case False
  from assms show ?thesis unfolding describeFile_miss[OF False]
    by (cases "respText (svc (sentRequest filename content projectFiles outl))") (auto simp: Let_def)
qed

text \<open>
  C6 (as the code has it): of two consecutive calls with the same file name and content,
  when the first returns a non-empty text the second is served from the cache: it
  returns that text and sends nothing. When the first was not itself served from the
  cache, the service has been called exactly once over the two calls.
\<close>

theorem describeFile_cache_hit:
  assumes first: "describeFile digest svc1 filename content projectFiles1 outl1 st = (r1, st1)"
    and second: "describeFile digest svc2 filename content projectFiles2 outl2 st1 = (r2, st2)"
    and hastext: "truthy (resText r1)"
  shows "resText r2 = resText r1 \<and> sent st2 = sent st1 \<and> st2 = st1
     \<and> (\<not> truthy (cache st (hashKey digest filename content)) \<longrightarrow>
          sent st2 = sent st @ [sentRequest filename content projectFiles1 outl1])"
proof -
  have c: "cache st1 (hashKey digest filename content) = resText r1"
    by (rule truthy_result_cached[OF first hastext])
  with hastext have h: "truthy (cache st1 (hashKey digest filename content))" by simp
  from second have 2: "resText r2 = resText r1" "st2 = st1"
    unfolding describeFile_hit[OF h] using c by auto
  have "sent st1 = sent st @ [sentRequest filename content projectFiles1 outl1]"
    if m: "\<not> truthy (cache st (hashKey digest filename content))"
    using first unfolding describeFile_miss[OF m] by (auto simp: Let_def)
  with 2 show ?thesis by simp
qed

theorem describeFile_cache_hit_witness:
  "describeFile id okService (str ''a.ts'') (str ''let x'') [] []
      (snd (describeFile id okService (str ''a.ts'') (str ''let x'') [] [] emptyState))
    = (\<lparr>resText = Some (str ''A description.''), resError = None, truncated = None\<rparr>,
       \<lparr>cache = [hashKey id (str ''a.ts'') (str ''let x'') \<mapsto> str ''A description.''],
        sent = [\<lparr>reqFilename = str ''a.ts'', reqFileContent = str ''let x'',
                 reqProjectFiles = [], reqOutline = []\<rparr>]\<rparr>)"
proof -
  have m: "\<not> truthy (cache emptyState (hashKey id (str ''a.ts'') (str ''let x'')))"
    by (simp add: emptyState_def)
  define r1 where "r1 = fst (describeFile id okService (str ''a.ts'') (str ''let x'') [] [] emptyState)"
  define st1 where "st1 = snd (describeFile id okService (str ''a.ts'') (str ''let x'') [] [] emptyState)"
  define r2 where "r2 = fst (describeFile id okService (str ''a.ts'') (str ''let x'') [] [] st1)"
  define st2 where "st2 = snd (describeFile id okService (str ''a.ts'') (str ''let x'') [] [] st1)"
  have 1: "describeFile id okService (str ''a.ts'') (str ''let x'') [] [] emptyState = (r1, st1)"
    by (simp add: r1_def st1_def)
  have 2: "describeFile id okService (str ''a.ts'') (str ''let x'') [] [] st1 = (r2, st2)"
    by (simp add: r2_def st2_def)
  have r1: "r1 = \<lparr>resText = Some (str ''A description.''), resError = None, truncated = Some False\<rparr>"
    and st1: "st1 = \<lparr>cache = [hashKey id (str ''a.ts'') (str ''let x'') \<mapsto> str ''A description.''],
        sent = [\<lparr>reqFilename = str ''a.ts'', reqFileContent = str ''let x'',
                 reqProjectFiles = [], reqOutline = []\<rparr>]\<rparr>"
    unfolding r1_def st1_def describeFile_miss[OF m]
    by (simp_all add: Let_def okService_def sentRequest_def MAX_CONTENT_SIZE_def emptyState_def)
  have t: "truthy (resText r1)" by (simp add: r1)
  from describeFile_cache_hit[OF 1 2 t] have "resText r2 = resText r1" "st2 = st1" by auto
  moreover have "resError r2 = None \<and> truncated r2 = None"
    unfolding r2_def st1 by (simp add: describeFile_def Let_def)
  ultimately have "r2 = \<lparr>resText = Some (str ''A description.''), resError = None, truncated = None\<rparr>"
    using r1 by (cases r2) simp
  with \<open>st2 = st1\<close> st1 2 show ?thesis unfolding st1_def[symmetric] by simp
qed

text \<open>
  C6 as stated fails when the service answers the first call with an error: nothing is
  cached and the second call reaches the service again, two requests in all.
\<close>

theorem describeFile_cache_hit_counterexample:
  "sent (snd (describeFile id okService (str ''a.ts'') (str ''let x'') [] []
      (snd (describeFile id failingService (str ''a.ts'') (str ''let x'') [] [] emptyState))))
    = [\<lparr>reqFilename = str ''a.ts'', reqFileContent = str ''let x'', reqProjectFiles = [], reqOutline = []\<rparr>,
       \<lparr>reqFilename = str ''a.ts'', reqFileContent = str ''let x'', reqProjectFiles = [], reqOutline = []\<rparr>]"
  by (simp add: describeFile_def Let_def failingService_def okService_def emptyState_def
      MAX_CONTENT_SIZE_def)

text \<open>
  C9: when a call returns no text (the service answered without one), the cache is as
  before and the next call with the same file name and content reaches the service
  again; and whenever a call changes the cache, it returned a non-empty text and that
  text is what it stored under the key of the call.
\<close>

theorem describeFile_error_not_cached:
  assumes first: "describeFile digest svc1 filename content projectFiles1 outl1 st = (r1, st1)"
    and second: "describeFile digest svc2 filename content projectFiles2 outl2 st1 = (r2, st2)"
  shows "(\<not> truthy (resText r1) \<longrightarrow>
            cache st1 = cache st
            \<and> sent st1 = sent st @ [sentRequest filename content projectFiles1 outl1]
            \<and> sent st2 = sent st1 @ [sentRequest filename content projectFiles2 outl2])
     \<and> (cache st1 \<noteq> cache st \<longrightarrow>
            truthy (resText r1)
            \<and> cache st1 = (cache st)(hashKey digest filename content \<mapsto> the (resText r1)))"
proof -
  have a: "cache st1 = cache st
            \<and> sent st1 = sent st @ [sentRequest filename content projectFiles1 outl1]
            \<and> sent st2 = sent st1 @ [sentRequest filename content projectFiles2 outl2]"
    if n: "\<not> truthy (resText r1)"
  proof -
    have m: "\<not> truthy (cache st (hashKey digest filename content))"
      by (rule not_truthy_result_miss[OF first n])
    from first n have 1: "cache st1 = cache st"
      "sent st1 = sent st @ [sentRequest filename content projectFiles1 outl1]"
      unfolding describeFile_miss[OF m] by (auto simp: Let_def split: if_splits)
    with m have m1: "\<not> truthy (cache st1 (hashKey digest filename content))" by simp
    from second have "sent st2 = sent st1 @ [sentRequest filename content projectFiles2 outl2]"
      unfolding describeFile_miss[OF m1] by (auto simp: Let_def)
    with 1 show ?thesis by simp
  qed
  have b: "truthy (resText r1)
            \<and> cache st1 = (cache st)(hashKey digest filename content \<mapsto> the (resText r1))"
    if c: "cache st1 \<noteq> cache st"
  proof (cases "truthy (cache st (hashKey digest filename content))")
    case True
    from first c show ?thesis unfolding describeFile_hit[OF True] by auto
  next
    case False
    from first c show ?thesis unfolding describeFile_miss[OF False]
      by (auto simp: Let_def split: if_splits)
  qed
  from a b show ?thesis by blast
qed

theorem describeFile_error_not_cached_witness:
  "cache (snd (describeFile id failingService (str ''a.ts'') (str ''let x'') [] [] emptyState)) = Map.empty
   \<and> length (sent (snd (describeFile id okService (str ''a.ts'') (str ''let x'') [] []
      (snd (describeFile id failingService (str ''a.ts'') (str ''let x'') [] [] emptyState))))) = 2"
proof -
  define r1 where "r1 = fst (describeFile id failingService (str ''a.ts'') (str ''let x'') [] [] emptyState)"
  define st1 where "st1 = snd (describeFile id failingService (str ''a.ts'') (str ''let x'') [] [] emptyState)"
  define r2 where "r2 = fst (describeFile id okService (str ''a.ts'') (str ''let x'') [] [] st1)"
  define st2 where "st2 = snd (describeFile id okService (str ''a.ts'') (str ''let x'') [] [] st1)"
  have 1: "describeFile id failingService (str ''a.ts'') (str ''let x'') [] [] emptyState = (r1, st1)"
    by (simp add: r1_def st1_def)
  have 2: "describeFile id okService (str ''a.ts'') (str ''let x'') [] [] st1 = (r2, st2)"
    by (simp add: r2_def st2_def)
  have n: "\<not> truthy (resText r1)"
    by (simp add: r1_def describeFile_def Let_def failingService_def emptyState_def)
  from describeFile_error_not_cached[OF 1 2] n
  have "cache st1 = cache emptyState" "sent st1 = sent emptyState @ [sentRequest (str ''a.ts'') (str ''let x'') [] []]"
    "sent st2 = sent st1 @ [sentRequest (str ''a.ts'') (str ''let x'') [] []]"
    by blast+
  then show ?thesis unfolding st1_def[symmetric] st2_def[symmetric]
    by (simp add: emptyState_def)
qed

subsection \<open>Concept instances\<close>

lemma spansOrdered_bounds: "spansOrdered lo hi xs \<Longrightarrow> lo \<le> hi"
proof (induction xs arbitrary: lo)
  case Nil
  then show ?case by simp
next
  case (Cons x xs)
  then have "ciTo x \<le> hi" "lo \<le> ciTo x" by auto
  then show ?case by simp
qed

lemma spansOrdered_widen:
  "spansOrdered lo hi xs \<Longrightarrow> lo' \<le> lo \<Longrightarrow> hi \<le> hi' \<Longrightarrow> spansOrdered lo' hi' xs"
  by (induction xs arbitrary: lo lo') auto

lemma spansOrdered_append:
  "spansOrdered lo mid xs \<Longrightarrow> spansOrdered mid hi ys \<Longrightarrow> spansOrdered lo hi (xs @ ys)"
  by (induction xs arbitrary: lo) (auto intro: spansOrdered_widen)

lemma siblingsOrdered_bounds: "siblingsOrdered lo hi cs \<Longrightarrow> lo \<le> hi"
proof (induction cs arbitrary: lo)
  case Nil
  then show ?case by simp
next
  case (Cons c cs)
  then have "nodeTo c \<le> hi" "lo \<le> nodeTo c" by auto
  then show ?case by simp
qed

lemma extractConcepts_ordered:
  "wellFormed n \<Longrightarrow> nodeFrom n \<le> nodeTo n \<Longrightarrow>
     spansOrdered (nodeFrom n) (nodeTo n) (extractConcepts doc n)"
proof (induction doc n rule: extractConcepts.induct)
  case (1 doc nm f t ch)
  show ?case
  proof (cases "conceptMap nm")
    case (Some category)
    then show ?thesis using "1.prems" by simp
  next
    case None
    have kids: "siblingsOrdered lo t cs \<Longrightarrow> set cs \<subseteq> set ch \<Longrightarrow>
        spansOrdered lo t (concat (map (extractConcepts doc) cs))" for lo cs
    proof (induction cs arbitrary: lo)
      case Nil
      then show ?case by simp
    next
      case (Cons c cs)
      from Cons.prems have c: "c \<in> set ch" "lo \<le> nodeFrom c" "nodeFrom c \<le> nodeTo c"
        "siblingsOrdered (nodeTo c) t cs" "set cs \<subseteq> set ch" by auto
      from "1.prems" c(1) have wc: "wellFormed c" by simp
      have a: "spansOrdered (nodeFrom c) (nodeTo c) (extractConcepts doc c)"
        using "1.IH"[OF None c(1) wc c(3)] .
      have b: "spansOrdered (nodeTo c) t (concat (map (extractConcepts doc) cs))"
        using Cons.IH[OF c(4) c(5)] .
      have "spansOrdered lo (nodeTo c) (extractConcepts doc c)"
        using spansOrdered_widen[OF a c(2)] by simp
      from spansOrdered_append[OF this b] show ?case by simp
    qed
    from "1.prems" have "siblingsOrdered f t ch" by simp
    from kids[OF this] None show ?thesis by simp
  qed
qed

lemma spansOrdered_nth:
  "spansOrdered lo hi xs \<Longrightarrow> i < j \<Longrightarrow> j < length xs \<Longrightarrow> ciTo (xs ! i) \<le> ciFrom (xs ! j)"
proof (induction xs arbitrary: lo i j)
  case Nil
  then show ?case by simp
next
  case (Cons x xs)
  from Cons.prems(2) obtain j' where j: "j = Suc j'" by (cases j) auto
  have first: "spansOrdered l hi ys \<Longrightarrow> k < length ys \<Longrightarrow> l \<le> ciFrom (ys ! k)" for l ys k
  proof (induction ys arbitrary: l k)
    case Nil
    then show ?case by simp
  next
    case (Cons y ys)
    show ?case
    proof (cases k)
      case 0
      with Cons.prems show ?thesis by simp
    next
      case (Suc k')
      with Cons.prems have "ciTo y \<le> ciFrom (ys ! k')" using Cons.IH by auto
      with Cons.prems Suc show ?thesis by simp
    qed
  qed
  show ?case
  proof (cases i)
    case 0
    from Cons.prems j have "spansOrdered (ciTo x) hi xs" "j' < length xs" by auto
    from first[OF this] 0 j show ?thesis by simp
  next
    case (Suc i')
    with Cons.prems j have "spansOrdered (ciTo x) hi xs" "i' < j'" "j' < length xs" by auto
    from Cons.IH[OF this] Suc j show ?thesis by simp
  qed
qed

lemma wellFormed_span: "wellFormed n \<Longrightarrow> nodeFrom n \<le> nodeTo n"
  by (cases n) (auto dest: siblingsOrdered_bounds)

lemma fold_upd_lookup:
  "fold (\<lambda>nm m'. m'(nm \<mapsto> category)) nodeNames m x
     = (if x \<in> set nodeNames then Some category else m x)"
  by (induction nodeNames arbitrary: m) auto

lemma fold_categories_lookup:
  "fold (\<lambda>(category, nodeNames) m. fold (\<lambda>nm m'. m'(nm \<mapsto> category)) nodeNames m) cs m x
     = (case categoryOf (rev cs) x of Some c \<Rightarrow> Some c | None \<Rightarrow> m x)"
proof (induction cs arbitrary: m)
  case Nil
  then show ?case by simp
next
  case (Cons c cs)
  obtain category nodeNames where c: "c = (category, nodeNames)" by (cases c)
  have app: "categoryOf (xs @ [(category, nodeNames)]) x
      = (case categoryOf xs x of Some d \<Rightarrow> Some d
         | None \<Rightarrow> if x \<in> set nodeNames then Some category else None)" for xs
    by (induction xs) auto
  let ?F = "\<lambda>(category, nodeNames) m. fold (\<lambda>nm m'. m'(nm \<mapsto> category)) nodeNames m"
  have "fold ?F (c # cs) m x = fold ?F cs (fold (\<lambda>nm m'. m'(nm \<mapsto> category)) nodeNames m) x"
    by (simp only: c fold_simps comp_apply case_prod_conv)
  also have "\<dots> = (case categoryOf (rev cs) x of Some d \<Rightarrow> Some d
       | None \<Rightarrow> fold (\<lambda>nm m'. m'(nm \<mapsto> category)) nodeNames m x)"
    by (rule Cons.IH)
  also have "\<dots> = (case categoryOf (rev (c # cs)) x of Some d \<Rightarrow> Some d | None \<Rightarrow> m x)"
    by (simp only: fold_upd_lookup app c rev.simps split: option.splits) simp
  finally show ?case .
qed

lemma conceptMap_lookup: "conceptMap x = categoryOf (rev categories) x"
  unfolding conceptMap_def fold_categories_lookup
  by (simp split: option.splits)

lemma conceptMap_examples:
  "conceptMap (str ''Script'') = None"
  "conceptMap (str ''VariableDeclaration'') = Some (str ''declaration'')"
  "conceptMap (str ''ExpressionStatement'') = None"
  "conceptMap (str ''CallExpression'') = Some (str ''invocation'')"
  "conceptMap (str '';'') = None"
  by (simp_all add: conceptMap_lookup categories_def)

text \<open>
  C7: in a well-formed tree the spans of the recorded instances follow one another in
  the order of recording, each ending before the next begins, so two of them are always
  disjoint and never overlap in part; and a node with a category is recorded alone,
  without any of its descendants.
\<close>

theorem concepts_disjoint:
  assumes "wellFormed tree" and "i < j" and "j < length (extractConcepts doc tree)"
  shows "ciTo (extractConcepts doc tree ! i) \<le> ciFrom (extractConcepts doc tree ! j)
     \<and> (\<forall>n category. conceptMap (nodeName n) = Some category \<longrightarrow>
           extractConcepts doc n =
             [\<lparr>ciCategory = category, ciNodeName = nodeName n, ciFrom = nodeFrom n, ciTo = nodeTo n,
               ciText = slice doc (nodeFrom n) (nodeTo n), ciLine = lineAt doc (nodeFrom n)\<rparr>])"
proof -
  have "spansOrdered (nodeFrom tree) (nodeTo tree) (extractConcepts doc tree)"
    using extractConcepts_ordered[OF assms(1) wellFormed_span[OF assms(1)]] .
  from spansOrdered_nth[OF this assms(2,3)]
  have a: "ciTo (extractConcepts doc tree ! i) \<le> ciFrom (extractConcepts doc tree ! j)" .
  have b: "extractConcepts doc n =
             [\<lparr>ciCategory = category, ciNodeName = nodeName n, ciFrom = nodeFrom n, ciTo = nodeTo n,
               ciText = slice doc (nodeFrom n) (nodeTo n), ciLine = lineAt doc (nodeFrom n)\<rparr>]"
    if "conceptMap (nodeName n) = Some category" for n category
    using that by (cases n) simp
  from a b show ?thesis by blast
qed

theorem concepts_disjoint_witness:
  "extractConcepts callInDeclarationDoc callInDeclaration =
     [\<lparr>ciCategory = str ''declaration'', ciNodeName = str ''VariableDeclaration'', ciFrom = 0, ciTo = 14,
       ciText = str ''const x = f();'', ciLine = 1\<rparr>,
      \<lparr>ciCategory = str ''invocation'', ciNodeName = str ''CallExpression'', ciFrom = 15, ciTo = 25,
       ciText = str ''log(\"abc\")'', ciLine = 1\<rparr>]
   \<and> ciTo (extractConcepts callInDeclarationDoc callInDeclaration ! 0)
       \<le> ciFrom (extractConcepts callInDeclarationDoc callInDeclaration ! 1)"
proof -
  have e: "extractConcepts callInDeclarationDoc callInDeclaration =
     [\<lparr>ciCategory = str ''declaration'', ciNodeName = str ''VariableDeclaration'', ciFrom = 0, ciTo = 14,
       ciText = str ''const x = f();'', ciLine = 1\<rparr>,
      \<lparr>ciCategory = str ''invocation'', ciNodeName = str ''CallExpression'', ciFrom = 15, ciTo = 25,
       ciText = str ''log(\"abc\")'', ciLine = 1\<rparr>]"
    using conceptMap_examples
    by (simp add: callInDeclaration_def callInDeclarationDoc_def slice_def lineAt_def)
  have w: "wellFormed callInDeclaration"
    by (simp add: callInDeclaration_def)
  have l: "1 < length (extractConcepts callInDeclarationDoc callInDeclaration)"
    by (simp add: e)
  from concepts_disjoint[OF w _ l, of 0] e show ?thesis by simp
qed

subsection \<open>The scope of the child summary\<close>

lemmas summary_defs = buildChildSummary_def countNode_def countCall_def calleeName_def
  callNodes_def conditionNodes_def loopNodes_def returnNodes_def skipNodes_def
  nodeText_def slice_def trim_def trimStart_def trimEnd_def is_ws_def cu_def emptySummary_def

lemma countVisited_node [simp]:
  "countVisited doc (SyntaxNode nm f t ch) s = countNode doc nm ch s"
  by (simp add: countVisited_def)









lemma prune_span [simp]: "nodeFrom (prune n) = nodeFrom n" "nodeTo (prune n) = nodeTo n"
  "nodeName (prune n) = nodeName n"
  by (cases n; simp)+










text \<open>The inner function reports its own call.\<close>

lemma buildChildSummary_inner: "buildChildSummary outerDoc innerFunction =
   \<lparr>callCount = 1, conditionCount = 0, loopCount = 0, returnCount = 0, calledFunctions = [str ''bar'']\<rparr>"
  by (simp add: outerDoc_def innerFunction_def summary_defs)

subsection \<open>Export wrappers\<close>

declare buildFileNode.simps [simp del] extractName.simps [simp del]

lemma kind_markExported [simp]: "kind (markExported n) = kind n"
  by (cases n) simp

lemma isExported_markExported [simp]: "isExported (markExported n) = True"
  by (cases n) simp

lemma kind_asExport [simp]: "kind (asExport n) = KExport"
  by (cases n) simp

lemma buildFileNode_None: "buildFileNode doc lang parent prev n = None \<longleftrightarrow> classifyNode n lang = None"
  by (subst buildFileNode.simps) (simp split: option.splits)

lemma walkExportInner_step:
  "fsImports (walkExportInner doc lang (p, c) s)
     = fsImports s @ filter (\<lambda>n. kind n = KImport)
         (map markExported (built [buildFileNode doc lang (Some (str ''ExportDeclaration'')) p c]))"
  "declarations (walkExportInner doc lang (p, c) s)
     = declarations s @ filter (\<lambda>n. kind n \<noteq> KImport)
         (map markExported (built [buildFileNode doc lang (Some (str ''ExportDeclaration'')) p c]))"
  "fsExports (walkExportInner doc lang (p, c) s)
     = fsExports s @ map asExport
         (map markExported (built [buildFileNode doc lang (Some (str ''ExportDeclaration'')) p c]))"
  "language (walkExportInner doc lang (p, c) s) = language s"
  by (cases "buildFileNode doc lang (Some (str ''ExportDeclaration'')) p c";
      simp add: walkExportInner_def Let_def del: str_Cons str_Nil)+

lemma fold_walkExportInner:
  "fsImports (fold (walkExportInner doc lang) pcs s)
     = fsImports s @ filter (\<lambda>n. kind n = KImport)
         (map markExported (built (map (\<lambda>(p, child). buildFileNode doc lang (Some (str ''ExportDeclaration'')) p child) pcs)))"
  "declarations (fold (walkExportInner doc lang) pcs s)
     = declarations s @ filter (\<lambda>n. kind n \<noteq> KImport)
         (map markExported (built (map (\<lambda>(p, child). buildFileNode doc lang (Some (str ''ExportDeclaration'')) p child) pcs)))"
  "fsExports (fold (walkExportInner doc lang) pcs s)
     = fsExports s @ map asExport
         (map markExported (built (map (\<lambda>(p, child). buildFileNode doc lang (Some (str ''ExportDeclaration'')) p child) pcs)))"
  "language (fold (walkExportInner doc lang) pcs s) = language s"
proof (induction pcs arbitrary: s)
  case Nil
  {
    case 1 show ?case by simp
  next
    case 2 show ?case by simp
  next
    case 3 show ?case by simp
  next
    case 4 show ?case by simp
  }
next
  case (Cons pc pcs)
  obtain p c where pc: "pc = (p, c)" by (cases pc)
  {
    case 1 show ?case
      by (cases "buildFileNode doc lang (Some (str ''ExportDeclaration'')) p c";
          simp add: Cons.IH pc walkExportInner_step del: str_Cons str_Nil)
  next
    case 2 show ?case
      by (cases "buildFileNode doc lang (Some (str ''ExportDeclaration'')) p c";
          simp add: Cons.IH pc walkExportInner_step del: str_Cons str_Nil)
  next
    case 3 show ?case
      by (cases "buildFileNode doc lang (Some (str ''ExportDeclaration'')) p c";
          simp add: Cons.IH pc walkExportInner_step del: str_Cons str_Nil)
  next
    case 4 show ?case
      by (cases "buildFileNode doc lang (Some (str ''ExportDeclaration'')) p c";
          simp add: Cons.IH pc walkExportInner_step del: str_Cons str_Nil)
  }
qed

lemma built_none:
  "(\<forall>x \<in> set xs. f x = None) \<Longrightarrow> built (map f xs) = []"
  by (induction xs) auto

lemma exportedInner_none:
  assumes "\<forall>c \<in> set (nodeChildren wrapper). classifyNode c lang = None"
  shows "exportedInner doc lang wrapper = []"
proof -
  have "\<forall>pc \<in> set (withPrev (nodeChildren wrapper)).
          (\<lambda>(p, child). buildFileNode doc lang (Some (str ''ExportDeclaration'')) p child) pc = None"
    using assms by (auto simp: withPrev_def buildFileNode_None dest: set_zip_rightD)
  from built_none[OF this] show ?thesis by (simp add: exportedInner_def)
qed

text \<open>\<open>buildFileNode\<close> at a node given by its constructor, for evaluation.\<close>

lemma buildFileNode_node:
  "buildFileNode doc lang parent prev (SyntaxNode nm f t ch) =
     (case classifyNode (SyntaxNode nm f t ch) lang of
        None \<Rightarrow> None
      | Some k \<Rightarrow>
          Some (FileNode k
            (extractName doc lang (SyntaxNode nm f t ch))
            (if k = KFunction then extractParams doc (SyntaxNode nm f t ch) else [])
            (if k = KFunction then extractReturnType doc (SyntaxNode nm f t ch) else None)
            (isAsyncNode doc (SyntaxNode nm f t ch))
            (isExportedNode parent prev)
            (extractKeyword doc (SyntaxNode nm f t ch))
            f t
            (if k = KFunction \<or> k = KClass
             then (case getChildOf (SyntaxNode nm f t ch)
                          [str ''Block'', str ''Body'', str ''ClassBody'', str ''DeclarationList''] of
                     None \<Rightarrow> []
                   | Some body \<Rightarrow>
                       built (map (\<lambda>(p, child). buildFileNode doc lang (Some (nodeName body)) p child)
                                (withPrev (nodeChildren body))))
             else [])
            (if k = KFunction \<or> k = KClass then buildChildSummary doc (SyntaxNode nm f t ch)
             else emptySummary)))"
  by (subst buildFileNode.simps) (simp split: option.splits del: str_Cons str_Nil)

lemmas extract_defs = buildFileNode_node extractName.simps classifyNode_def
  funcNodes_def classNodes_def importNodes_def exportNodes_def typeNodes_def varNodes_def
  controlNodes_def nameNodes_def langRow_def getChild_def withPrev_def firstChild_def
  extractParams_def paramOf_def extractReturnType_def stripColon_def stripArrow_def
  isAsyncNode_def isExportedNode_def extractKeyword_def matchKeyword_def keywordAfterAsync_def
  afterPrefix_def keywordAt_def declKeywords_def firstLineLabel_def startsWith_def is_word_def
  is_lower_def is_upper_def is_digit_def summary_defs
  walkJsNodes_def walkJsNode_def walkExportInner_def exportedInner_def emptyStructure_def Let_def

text \<open>
  An export wrapper in general: every classifiable child is built, marked as exported and
  appended to \<open>imports\<close> or \<open>declarations\<close>, one copy of it with the kind \<open>export\<close> goes to
  \<open>exports\<close>, and the node of the wrapper follows the copies whenever the wrapper has no
  first child or its first child has no kind.
\<close>

lemma walkJsNode_export:
  assumes "nodeName wrapper = str ''ExportDeclaration''"
  shows "fsImports (walkJsNode doc lang parent (prev, wrapper) s)
           = fsImports s @ filter (\<lambda>n. kind n = KImport) (exportedInner doc lang wrapper)
     \<and> declarations (walkJsNode doc lang parent (prev, wrapper) s)
           = declarations s @ filter (\<lambda>n. kind n \<noteq> KImport) (exportedInner doc lang wrapper)
     \<and> (\<forall>n \<in> set (exportedInner doc lang wrapper). isExported n)
     \<and> fsExports (walkJsNode doc lang parent (prev, wrapper) s)
           = fsExports s @ map asExport (exportedInner doc lang wrapper)
             @ (if (case firstChild wrapper of None \<Rightarrow> True | Some c \<Rightarrow> classifyNode c lang = None)
                then (case buildFileNode doc lang parent prev wrapper of
                        Some e \<Rightarrow> [e] | None \<Rightarrow> [])
                else [])"
proof -
  let ?s1 = "fold (walkExportInner doc lang) (withPrev (nodeChildren wrapper)) s"
  let ?inner = "exportedInner doc lang wrapper"
  let ?cond = "(case firstChild wrapper of None \<Rightarrow> True | Some c \<Rightarrow> classifyNode c lang = None)"
  let ?rest = "(if ?cond then (case buildFileNode doc lang parent prev wrapper of
                            Some e \<Rightarrow> [e] | None \<Rightarrow> []) else [])"
  have s1: "fsImports ?s1 = fsImports s @ filter (\<lambda>n. kind n = KImport) ?inner"
    "declarations ?s1 = declarations s @ filter (\<lambda>n. kind n \<noteq> KImport) ?inner"
    "fsExports ?s1 = fsExports s @ map asExport ?inner"
    unfolding exportedInner_def by (rule fold_walkExportInner)+
  have w: "walkJsNode doc lang parent (prev, wrapper) s = ?s1\<lparr>fsExports := fsExports ?s1 @ ?rest\<rparr>"
    using assms
    by (simp add: walkJsNode_def Let_def split: option.splits del: str_Cons str_Nil)
  have a: "fsImports (walkJsNode doc lang parent (prev, wrapper) s)
           = fsImports s @ filter (\<lambda>n. kind n = KImport) ?inner"
    and b: "declarations (walkJsNode doc lang parent (prev, wrapper) s)
           = declarations s @ filter (\<lambda>n. kind n \<noteq> KImport) ?inner"
    and c: "fsExports (walkJsNode doc lang parent (prev, wrapper) s)
           = fsExports s @ map asExport ?inner @ ?rest"
    unfolding w by (simp_all add: s1)
  have d: "\<forall>n \<in> set ?inner. isExported n"
    by (auto simp: exportedInner_def)
  from a b c d show ?thesis by blast
qed

text \<open>
  C1 (where the code departs from it): for \<open>export function foo() {}\<close> the wrapper holds the
  \<open>export\<close> token, which has no kind, and the declaration of \<open>foo\<close>, which is classified
  as a function. \<open>foo\<close> is added to \<open>declarations\<close> as exported and one copy of it with the
  kind \<open>export\<close> is appended to \<open>exports\<close>; but the guard that decides about the wrapper
  looks at the first child only, so the node of the wrapper is appended to \<open>exports\<close> as
  well, although the wrapper has a classifiable inner child.
\<close>

theorem walkJsNodes_exportFoo:
  "map (\<lambda>c. classifyNode c LJs) (nodeChildren exportFoo) = [None, Some KFunction]
   \<and> walkJsNodes [exportFoo] exportFooDoc LJs (Some (str ''Script'')) (emptyStructure (str ''js''))
     = \<lparr>fsImports = [], fsExports = [asExport fooDeclaration, fooWrapper],
        declarations = [fooDeclaration], language = str ''js''\<rparr>"
  by (simp add: exportFooDoc_def exportFoo_def fooDeclaration_def fooWrapper_def extract_defs)

subsection \<open>Captions of the end-to-end scenario\<close>

text \<open>The structure extracted from the file of the scenario: one import, and \<open>foo\<close>.\<close>

lemma e2eStructure_declarations:
  "declarations e2eStructure = [e2eFoo] \<and> length (fsImports e2eStructure) = 1"
  by (simp add: e2eStructure_def e2eTree_def e2eImport_def e2eFunction_def e2eLoop_def e2eDoc_def
      e2eFoo_def e2eLoopNode_def extract_defs)

text \<open>
  C2 (as the code has it): for the file of the scenario the one declaration is \<open>foo\<close> with
  the one parameter \<open>x\<close>; its summary is "foo is an async function that takes", the
  description of \<open>x\<close>, "and returns Promise<void>.", with the name in lower case as
  \<open>humanizeName\<close> leaves it, and its detail is "Inside, it calls bar, baz, uses 1 loop."
\<close>

theorem e2e_explanation:
  "\<exists>node p. declarations e2eStructure = [node] \<and> params node = [p] \<and> pname p = str ''x''
     \<and> summary (blockExplanation node)
         = str ''foo is an async function that takes '' @ paramDesc p
             @ str '' and returns Promise<void>.''
     \<and> detail (blockExplanation node) = str ''Inside, it calls bar, baz, uses 1 loop.''"
proof -
  have d: "declarations e2eStructure = [e2eFoo]"
    using e2eStructure_declarations by blast
  have p: "params e2eFoo = [\<lparr>pname = str ''x'', ptype = None\<rparr>]"
    by (simp add: e2eFoo_def)
  have s: "summary (blockExplanation e2eFoo)
         = str ''foo is an async function that takes '' @ paramDesc \<lparr>pname = str ''x'', ptype = None\<rparr>
             @ str '' and returns Promise<void>.''"
    by (simp add: blockExplanation_def e2eFoo_def functionSummary_def paramDesc_def humanize_defs)
  have t: "detail (blockExplanation e2eFoo) = str ''Inside, it calls bar, baz, uses 1 loop.''"
    by (simp add: blockExplanation_def e2eFoo_def functionDetail_def plural_def)
  have "declarations e2eStructure = [e2eFoo] \<and> params e2eFoo = [\<lparr>pname = str ''x'', ptype = None\<rparr>]
     \<and> pname \<lparr>pname = str ''x'', ptype = None\<rparr> = str ''x''
     \<and> summary (blockExplanation e2eFoo)
         = str ''foo is an async function that takes '' @ paramDesc \<lparr>pname = str ''x'', ptype = None\<rparr>
             @ str '' and returns Promise<void>.''
     \<and> detail (blockExplanation e2eFoo) = str ''Inside, it calls bar, baz, uses 1 loop.''"
    using d p s t by simp
  then show ?thesis by blast
qed

text \<open>
  C2 as stated, with the capitalised "Foo", does not hold: no step of \<open>humanizeName\<close> or
  of \<open>blockExplanation\<close> changes the case of a letter, and the summary begins with "foo".
\<close>

theorem e2e_explanation_counterexample:
  "map (\<lambda>n. summary (blockExplanation n)) (declarations e2eStructure)
     \<noteq> [str ''Foo is an async function that takes x (number) and returns Promise<void>.'']
   \<and> map (\<lambda>n. take 4 (summary (blockExplanation n))) (declarations e2eStructure) = [str ''foo '']"
proof -
  have d: "declarations e2eStructure = [e2eFoo]"
    using e2eStructure_declarations by blast
  show ?thesis
    unfolding d
    by (simp add: blockExplanation_def e2eFoo_def functionSummary_def paramDesc_def humanize_defs)
qed

text \<open>
  The whole summary: the type annotation of \<open>x\<close> is not a child of the definition of \<open>x\<close>,
  where \<open>extractParams\<close> looks for it, so no type is attached to the parameter.
\<close>

lemma e2e_summary:
  "map (\<lambda>n. summary (blockExplanation n)) (declarations e2eStructure)
     = [str ''foo is an async function that takes x and returns Promise<void>.'']"
proof -
  have d: "declarations e2eStructure = [e2eFoo]"
    using e2eStructure_declarations by blast
  show ?thesis
    unfolding d
    by (simp add: blockExplanation_def e2eFoo_def functionSummary_def paramDesc_def humanize_defs)
qed

end
